theory Spec2Isabelle
  imports Main "HOL-Library.Word"
begin

unbundle bit_operations_syntax

section \<open>Data model of save-hidden-npy.cpp\<close>

type_synonym byte = "8 word"
type_synonym uint16_t = "16 word"
type_synonym uint32_t = "32 word"
type_synonym int64_t = "64 word"
type_synonym llama_token = "32 word"

text \<open>
  The element-type tags of the engine. The eleven tags that the switch of
  \<open>ggml_type_to_numpy_descr\<close> names are constructors of their own; the enum is
  declared in ggml.h, so every further tag of it is \<open>GGML_TYPE_OTHER k\<close>, with \<open>k\<close>
  its numeric value.
\<close>

datatype ggml_type =
    GGML_TYPE_F32
  | GGML_TYPE_F16
  | GGML_TYPE_Q4_0
  | GGML_TYPE_Q4_1
  | GGML_TYPE_Q5_0
  | GGML_TYPE_Q5_1
  | GGML_TYPE_Q8_0
  | GGML_TYPE_I8
  | GGML_TYPE_I16
  | GGML_TYPE_I32
  | GGML_TYPE_I64
  | GGML_TYPE_OTHER nat

text \<open>
  Both throw statements of save-hidden-npy.cpp raise \<open>std::runtime_error\<close> with a
  message. \<open>engine_abort\<close> is the end of the process inside the engine's fetch: a
  failed bounds assertion, or a write beyond the end of the destination buffer.
\<close>

datatype exn = runtime_error string | engine_abort

definition UnsupportedType :: exn where
  "UnsupportedType = runtime_error ''Unsupported ggml type''"

definition IOError :: "string \<Rightarrow> exn" where
  "IOError path = runtime_error (''Cannot open file: '' @ path)"

record json_entry =
  uid :: uint32_t
  question_text :: string
  answer_text :: string
  model_answer :: string
  target :: string

record callback_data =
  data :: "byte list"
  cb_uid :: uint32_t
  target_layer :: string
  output_dir :: string

text \<open>
  The fields of \<open>struct ggml_tensor\<close> that the callback reads. \<open>ne\<close> is the array
  \<open>int64_t ne[GGML_MAX_DIMS]\<close>; \<open>t_data\<close> is what the host reads at the address
  \<open>t->data\<close>, which for a tensor in device memory is not the tensor's contents;
  \<open>backend_bytes\<close> are the tensor's contents in its backend buffer, which a fetch
  reads; \<open>buffer_is_host\<close> is what \<open>ggml_backend_buffer_is_host(t->buffer)\<close> answers
  and \<open>nbytes\<close> what \<open>ggml_nbytes(t)\<close> answers (both functions belong to the engine).
  For a tensor on the host \<open>t_data\<close> and \<open>backend_bytes\<close> are the same bytes.
\<close>

record ggml_tensor =
  t_type :: ggml_type
  buffer_is_host :: bool
  ne :: "int64_t list"
  t_data :: "byte list"
  backend_bytes :: "byte list"
  t_name :: string
  nbytes :: nat

text \<open>
  The effects that are recorded: a resize of the staging buffer, a device fetch
  (\<open>ggml_backend_tensor_get\<close>), a file opened for writing and filled, a call of
  \<open>llama_decode\<close>.
\<close>

datatype event =
    Resize nat
  | TensorGet string nat
  | FileWrite string
  | Decode "llama_token list"

text \<open>
  The world outside the process: the files by path, which paths an
  \<open>std::ofstream\<close> can open for writing, how many bytes a stream opened on a path
  takes before a write fails (\<open>None\<close>: no write fails), the log, and the trace of
  effects.
\<close>

record world =
  files :: "string \<rightharpoonup> byte list"
  openable :: "string \<Rightarrow> bool"
  write_room :: "string \<Rightarrow> nat option"
  log :: "string list"
  trace :: "event list"

text \<open>
  An open \<open>std::ofstream\<close>: the bytes that have reached the file, the bytes it still
  takes, and its state. No exception mask is set, so a failed write only turns the state
  bad, and a bad stream ignores every further write.
\<close>

record ofstream =
  written :: "byte list"
  room :: "nat option"
  good :: bool

definition stream_write :: "ofstream \<Rightarrow> byte list \<Rightarrow> ofstream" where
  "stream_write out bs =
     (if \<not> good out then out
      else case room out of
             None \<Rightarrow> out\<lparr>written := written out @ bs\<rparr>
           | Some k \<Rightarrow>
               if length bs \<le> k
               then out\<lparr>written := written out @ bs, room := Some (k - length bs)\<rparr>
               else out\<lparr>written := written out @ take k bs, room := Some 0, good := False\<rparr>)"

section \<open>Type Descriptor Mapper\<close>

fun ggml_type_to_numpy_descr :: "ggml_type \<Rightarrow> exn + string" where
  "ggml_type_to_numpy_descr GGML_TYPE_F32 = Inr ''<f4''"
| "ggml_type_to_numpy_descr GGML_TYPE_F16 = Inr ''<f2''"
| "ggml_type_to_numpy_descr GGML_TYPE_Q4_0 = Inr ''<i1''"
| "ggml_type_to_numpy_descr GGML_TYPE_Q4_1 = Inr ''<i1''"
| "ggml_type_to_numpy_descr GGML_TYPE_Q5_0 = Inr ''<i1''"
| "ggml_type_to_numpy_descr GGML_TYPE_Q5_1 = Inr ''<i1''"
| "ggml_type_to_numpy_descr GGML_TYPE_Q8_0 = Inr ''<i1''"
| "ggml_type_to_numpy_descr GGML_TYPE_I8 = Inr ''<i1''"
| "ggml_type_to_numpy_descr GGML_TYPE_I16 = Inr ''<i2''"
| "ggml_type_to_numpy_descr GGML_TYPE_I32 = Inr ''<i4''"
| "ggml_type_to_numpy_descr GGML_TYPE_I64 = Inr ''<i8''"
| "ggml_type_to_numpy_descr (GGML_TYPE_OTHER k) = Inl UnsupportedType"

section \<open>Decimal output\<close>

definition digit_char :: "nat \<Rightarrow> char" where
  "digit_char d = char_of (48 + d)"

text \<open>\<open>operator<<\<close> and \<open>std::to_string\<close> on an unsigned value: decimal, no leading zeros.\<close>

fun to_string :: "nat \<Rightarrow> string" where
  "to_string n = (if n < 10 then [digit_char n] else to_string (n div 10) @ [digit_char (n mod 10)])"

declare to_string.simps [simp del]

text \<open>\<open>hdr << shape[i]\<close> on an \<open>int64_t\<close>: signed decimal.\<close>

definition show_int64 :: "int64_t \<Rightarrow> string" where
  "show_int64 x = (if sint x < 0 then CHR ''-'' # to_string (nat (- sint x)) else to_string (nat (sint x)))"

section \<open>Array Encoder\<close>

text \<open>The loop over the shape; \<open>i\<close> is the loop index, \<open>hdr\<close> the stream so far.\<close>

fun shape_loop :: "nat \<Rightarrow> int64_t list \<Rightarrow> string \<Rightarrow> string" where
  "shape_loop i [] hdr = hdr"
| "shape_loop i (x # xs) hdr =
     shape_loop (Suc i) xs ((if i \<noteq> 0 then hdr @ '', '' else hdr) @ show_int64 x)"

text \<open>Lines 69 to 86: the header text, or the exception of the descriptor mapper.\<close>

definition npy_header :: "int64_t list \<Rightarrow> ggml_type \<Rightarrow> exn + string" where
  \<open>npy_header shape type =
     (case ggml_type_to_numpy_descr type of
        Inl e \<Rightarrow> Inl e
      | Inr descr \<Rightarrow>
          let hdr = ''{'';
              hdr = hdr @ ''"descr": "'' @ descr @ ''", '';
              hdr = hdr @ ''"fortran_order": False, '';
              hdr = hdr @ ''"shape": ('';
              hdr = shape_loop 0 shape hdr;
              hdr = (if length shape = 1 then hdr @ '','' else hdr);
              hdr = hdr @ '')}''
          in Inr hdr)\<close>

text \<open>Lines 88 to 94: the padding to a multiple of 64.\<close>

definition pad_header :: "string \<Rightarrow> string" where
  "pad_header header =
     (let magic_len = 6; version_len = 2; header_len_field = 2;
          total_len = magic_len + version_len + header_len_field + length header;
          pad = (64 - (total_len mod 64)) mod 64
      in header @ replicate pad (CHR '' ''))"

text \<open>
  Lines 96 to 115. The stream is tested once, right after the open; the writes that
  follow are not tested, and the call returns normally whatever became of them.
\<close>

definition save_data_npy ::
  "byte list \<Rightarrow> nat \<Rightarrow> int64_t list \<Rightarrow> ggml_type \<Rightarrow> string \<Rightarrow> world \<Rightarrow> exn + world" where
  "save_data_npy dat n_bytes shape type path w =
     (case npy_header shape type of
        Inl e \<Rightarrow> Inl e
      | Inr header \<Rightarrow>
          let header = pad_header header
          in if \<not> openable w path then Inl (IOError path)
             else
               let out = \<lparr>written = [], room = write_room w path, good = True\<rparr>;
                   out = stream_write out
                           [0x93, of_char CHR ''N'', of_char CHR ''U'', of_char CHR ''M'',
                            of_char CHR ''P'', of_char CHR ''Y''];
                   out = stream_write out [1];
                   out = stream_write out [0];
                   hdr_len = (of_nat (length header) :: uint16_t);
                   out = stream_write out [ucast (hdr_len AND 0xFF)];
                   out = stream_write out [ucast ((drop_bit 8 hdr_len) AND 0xFF)];
                   out = stream_write out (map of_char header);
                   out = stream_write out (take n_bytes dat)
               in Inr (w\<lparr>files := (files w)(path \<mapsto> written out),
                          trace := trace w @ [FileWrite path]\<rparr>))"

section \<open>Tensor Capture Hook\<close>

type_synonym state = "callback_data \<times> world"

text \<open>\<open>std::vector::resize\<close>: cut, or filled up with zero bytes.\<close>

definition resize :: "byte list \<Rightarrow> nat \<Rightarrow> byte list" where
  "resize v n = take n v @ replicate (n - length v) 0"

text \<open>
  Modelled from the spec: \<open>ggml_backend_tensor_get\<close>, the engine's synchronous
  read-into-host-buffer operation, is not in save-hidden-npy.cpp. It copies \<open>sz\<close> bytes
  of the tensor's contents, from \<open>offset\<close> on, over the first \<open>sz\<close> bytes of the
  destination, whose length it leaves as it is. \<open>None\<close>: the read is out of the tensor's
  bounds or the destination is shorter than \<open>sz\<close> bytes, and the process does not go on.
\<close>

definition ggml_backend_tensor_get ::
  "ggml_tensor \<Rightarrow> byte list \<Rightarrow> nat \<Rightarrow> nat \<Rightarrow> byte list option" where
  "ggml_backend_tensor_get t dst offset sz =
     (if offset + sz \<le> nbytes t \<and> offset + sz \<le> length (backend_bytes t) \<and> sz \<le> length dst
      then Some (take sz (drop offset (backend_bytes t)) @ drop sz dst)
      else None)"

text \<open>\<open>cb_data->output_dir + '/' + std::to_string(cb_data->uid) + ".npy"\<close>\<close>

definition out_path :: "callback_data \<Rightarrow> string" where
  "out_path cb = output_dir cb @ ''/'' @ to_string (unat (cb_uid cb)) @ ''.npy''"

text \<open>Lines 139 to 146; \<open>max_dims\<close> is the macro \<open>GGML_MAX_DIMS\<close> of ggml.h.\<close>

definition build_shape :: "nat \<Rightarrow> ggml_tensor \<Rightarrow> int64_t list" where
  "build_shape max_dims t =
     (let shape = map (\<lambda>i. ne t ! i) [0..<max_dims]
      in if shape = [] then shape @ [1] else shape)"

text \<open>
  Lines 127 to 137: the pointer to the bytes to write. A tensor whose buffer is not on
  the host is fetched into the staging buffer \<open>cb_data->data\<close>, resized to the
  tensor's byte length first; a tensor on the host is read in place, at \<open>t->data\<close>.
\<close>

definition data_ptr_of ::
  "ggml_tensor \<Rightarrow> callback_data \<Rightarrow> world \<Rightarrow> exn \<times> state + callback_data \<times> world \<times> byte list" where
  "data_ptr_of t cb_data w =
     (let n_bytes = nbytes t;
          is_host = buffer_is_host t
      in if \<not> is_host then
           let cb_data = cb_data\<lparr>data := resize (data cb_data) n_bytes\<rparr>;
               w = w\<lparr>trace := trace w @ [Resize n_bytes]\<rparr>
           in case ggml_backend_tensor_get t (data cb_data) 0 n_bytes of
                None \<Rightarrow> Inl (engine_abort, cb_data, w)
              | Some fetched \<Rightarrow>
                  let cb_data = cb_data\<lparr>data := fetched\<rparr>;
                      w = w\<lparr>trace := trace w @ [TensorGet (t_name t) n_bytes]\<rparr>
                  in Inr (cb_data, w, data cb_data)
         else Inr (cb_data, w, t_data t))"

text \<open>
  The callback. An exception leaves with the session and the world as they are at the
  throw: the files outlive the process.
\<close>

definition ggml_debug ::
  "nat \<Rightarrow> ggml_tensor \<Rightarrow> bool \<Rightarrow> state \<Rightarrow> exn \<times> state + bool \<times> state" where
  "ggml_debug max_dims t ask s =
     (if ask then Inr (True, s)
      else
        let (cb_data, w) = s in
        if t_name t = target_layer cb_data then
          let n_bytes = nbytes t in
          case data_ptr_of t cb_data w of
            Inl x \<Rightarrow> Inl x
          | Inr (cb_data, w, data_ptr) \<Rightarrow>
              let shape = build_shape max_dims t
              in case save_data_npy data_ptr n_bytes shape (t_type t) (out_path cb_data) w of
                   Inl e \<Rightarrow> Inl (e, cb_data, w)
                 | Inr w \<Rightarrow> Inr (True, cb_data, w)
        else Inr (True, s))"

section \<open>The engine, at its interface\<close>

text \<open>
  What save-hidden-npy.cpp consumes from the inference engine: the vocabulary's
  beginning-of-sequence flag, the tokenizer, the tensors a pass over a token batch
  computes, in order, and the status \<open>llama_decode\<close> returns for it.
\<close>

record engine =
  add_bos :: bool
  common_tokenize :: "string \<Rightarrow> bool \<Rightarrow> llama_token list"
  graph :: "llama_token list \<Rightarrow> ggml_tensor list"
  decode_status :: "llama_token list \<Rightarrow> int"

type_synonym cb_eval = "ggml_tensor \<Rightarrow> bool \<Rightarrow> state \<Rightarrow> exn \<times> state + bool \<times> state"

text \<open>
  Modelled from the spec: the engine's pass over the tensors of a batch is not in
  save-hidden-npy.cpp. The hook is invoked synchronously and sequentially, once per tensor, in an
  ask phase and, when that answers true, an act phase on the computed tensor; an act
  phase that answers false ends the pass; an exception of the hook leaves the pass.
\<close>

fun eval_tensors :: "cb_eval \<Rightarrow> ggml_tensor list \<Rightarrow> state \<Rightarrow> exn \<times> state + state" where
  "eval_tensors cb [] s = Inr s"
| "eval_tensors cb (t # ts) s =
     (case cb t True s of
        Inl x \<Rightarrow> Inl x
      | Inr (need, s) \<Rightarrow>
          if \<not> need then eval_tensors cb ts s
          else (case cb t False s of
                  Inl x \<Rightarrow> Inl x
                | Inr (go_on, s) \<Rightarrow> if go_on then eval_tensors cb ts s else Inr s))"

text \<open>
  Modelled from the spec: \<open>llama_decode\<close>, the decode entry point accepting a token
  batch and returning success (0) or failure, with the pass in between.
\<close>

definition llama_decode :: "engine \<Rightarrow> cb_eval \<Rightarrow> llama_token list \<Rightarrow> state \<Rightarrow> exn \<times> state + int \<times> state" where
  "llama_decode eng cb tokens s =
     (let (cb_data, w) = s;
          s = (cb_data, w\<lparr>trace := trace w @ [Decode tokens]\<rparr>)
      in case eval_tensors cb (graph eng tokens) s of
           Inl x \<Rightarrow> Inl x
         | Inr s \<Rightarrow> Inr (decode_status eng tokens, s))"

section \<open>Inference Driver\<close>

definition LOG_ERR :: "string \<Rightarrow> state \<Rightarrow> state" where
  "LOG_ERR msg s = (let (cb_data, w) = s in (cb_data, w\<lparr>log := log w @ [msg]\<rparr>))"

definition run_one :: "engine \<Rightarrow> cb_eval \<Rightarrow> string \<Rightarrow> state \<Rightarrow> exn \<times> state + bool \<times> state" where
  "run_one eng cb prompt s =
     (let tokens = common_tokenize eng prompt (add_bos eng)
      in if tokens = [] then Inr (False, s)
         else (case llama_decode eng cb tokens s of
                 Inl x \<Rightarrow> Inl x
               | Inr (rc, s) \<Rightarrow>
                   if rc \<noteq> 0 then Inr (False, LOG_ERR ''run_one : failed to eval\<newline>'' s)
                   else Inr (True, s)))"

text \<open>The body of the loop of \<open>main\<close>, lines 232 to 238.\<close>

definition process_entry :: "nat \<Rightarrow> engine \<Rightarrow> json_entry \<Rightarrow> state \<Rightarrow> exn \<times> state + state" where
  "process_entry max_dims eng e s =
     (let (cb_data, w) = s;
          s = (cb_data\<lparr>cb_uid := uid e\<rparr>, w)
      in case run_one eng (ggml_debug max_dims) (question_text e) s of
           Inl x \<Rightarrow> Inl x
         | Inr (ok, s) \<Rightarrow>
             if \<not> ok
             then Inr (LOG_ERR (''Inference failed for uid '' @ to_string (unat (uid e)) @ ''\<newline>'') s)
             else Inr s)"

text \<open>The loop of \<open>main\<close>, lines 231 to 239: there is no handler around the body.\<close>

fun main_loop :: "nat \<Rightarrow> engine \<Rightarrow> json_entry list \<Rightarrow> state \<Rightarrow> exn \<times> state + state" where
  "main_loop max_dims eng [] s = Inr s"
| "main_loop max_dims eng (e # es) s =
     (case process_entry max_dims eng e s of
        Inl x \<Rightarrow> Inl x
      | Inr s \<Rightarrow> main_loop max_dims eng es s)"

text \<open>
  \<open>main\<close> from the session's creation (lines 195 to 207) to the end of the loop, for
  the home directory \<open>home\<close> and the entries that \<open>load_input_json\<close> returned,
  when the parsing of the arguments and the initialisation of the engine (lines 209 to
  228) have succeeded.
\<close>

definition main_run :: "nat \<Rightarrow> engine \<Rightarrow> string \<Rightarrow> json_entry list \<Rightarrow> world \<Rightarrow> exn \<times> state + state" where
  "main_run max_dims eng home entries w =
     (let TARGET_LAYER = ''l_out-15'';
          OUTPUT_DIR = home @ ''/310-solution/npy_outputs/'';
          cb_data = \<lparr>data = [], cb_uid = 0, target_layer = TARGET_LAYER, output_dir = OUTPUT_DIR\<rparr>
      in main_loop max_dims eng entries (cb_data, w))"

section \<open>Definitions for stating the properties\<close>

text \<open>
  The complete file image of lines 101 to 115: magic, version, the two bytes of the header
  length, the header, the payload.
\<close>

definition npy_bytes :: "string \<Rightarrow> byte list \<Rightarrow> nat \<Rightarrow> byte list" where
  "npy_bytes header dat n_bytes =
     (let hdr_len = (of_nat (length header) :: uint16_t)
      in [0x93, of_char CHR ''N'', of_char CHR ''U'', of_char CHR ''M'', of_char CHR ''P'', of_char CHR ''Y'']
         @ [1, 0]
         @ [ucast (hdr_len AND 0xFF), ucast ((drop_bit 8 hdr_len) AND 0xFF)]
         @ map of_char header
         @ take n_bytes dat)"

text \<open>What reaches a file of the bytes written to a stream with the given room.\<close>

definition accepted :: "nat option \<Rightarrow> byte list \<Rightarrow> byte list" where
  "accepted r bs = (case r of None \<Rightarrow> bs | Some k \<Rightarrow> take k bs)"

text \<open>A stream with the given room at its opening, after the bytes \<open>bs\<close> were written to it.\<close>

definition stream_after :: "nat option \<Rightarrow> byte list \<Rightarrow> ofstream" where
  "stream_after r bs =
     \<lparr>written = accepted r bs,
      room = map_option (\<lambda>k. k - length bs) r,
      good = (case r of None \<Rightarrow> True | Some k \<Rightarrow> length bs \<le> k)\<rparr>"

text \<open>
  The shape as the header's description words it: the integers, separated by a comma and
  a space.
\<close>

fun comma_sep :: "int64_t list \<Rightarrow> string" where
  "comma_sep [] = []"
| "comma_sep [x] = show_int64 x"
| "comma_sep (x # y # zs) = show_int64 x @ '', '' @ comma_sep (y # zs)"

text \<open>Reading a decimal numeral back, to show that \<open>to_string\<close> is injective.\<close>

definition from_string :: "string \<Rightarrow> nat" where
  "from_string s = foldl (\<lambda>a c. 10 * a + (of_char c - 48)) 0 s"

text \<open>The state a call ends in, whether it returns or throws.\<close>

definition state_of_hook :: "exn \<times> state + bool \<times> state \<Rightarrow> state" where
  "state_of_hook r = (case r of Inl (e, s) \<Rightarrow> s | Inr (b, s) \<Rightarrow> s)"

definition state_of :: "exn \<times> state + state \<Rightarrow> state" where
  "state_of r = (case r of Inl (e, s) \<Rightarrow> s | Inr s \<Rightarrow> s)"

text \<open>The effects a hook invocation can have when its file is \<open>p\<close>.\<close>

fun hook_event :: "string \<Rightarrow> event \<Rightarrow> bool" where
  "hook_event p (Resize n) = True"
| "hook_event p (TensorGet nm n) = True"
| "hook_event p (FileWrite q) = (q = p)"
| "hook_event p (Decode tk) = False"

text \<open>
  What a pass may change: not the record id, the target name or the output directory of
  the session, no file but the one the session names, and only hook effects in the trace.
\<close>

definition pass_frame :: "state \<Rightarrow> state \<Rightarrow> bool" where
  "pass_frame s s' \<longleftrightarrow>
     cb_uid (fst s') = cb_uid (fst s) \<and>
     target_layer (fst s') = target_layer (fst s) \<and>
     output_dir (fst s') = output_dir (fst s) \<and>
     openable (snd s') = openable (snd s) \<and>
     log (snd s') = log (snd s) \<and>
     (\<forall>p. p \<noteq> out_path (fst s) \<longrightarrow> files (snd s') p = files (snd s) p) \<and>
     (\<exists>evs. trace (snd s') = trace (snd s) @ evs \<and> list_all (hook_event (out_path (fst s))) evs)"

text \<open>Calls of \<open>llama_decode\<close> in a trace.\<close>

fun is_decode :: "event \<Rightarrow> bool" where
  "is_decode (Decode tk) = True"
| "is_decode ev = False"

definition decode_calls :: "event list \<Rightarrow> nat" where
  "decode_calls evs = length (filter is_decode evs)"

section \<open>Concrete inputs\<close>

text \<open>
  A world with no files, where every path but one can be opened for writing and no write
  fails.
\<close>

definition locked_path :: string where
  "locked_path = ''/home/u/310-solution/npy_outputs//1.npy''"

definition world0 :: world where
  "world0 = \<lparr>files = Map.empty, openable = (\<lambda>p. p \<noteq> locked_path),
              write_room = (\<lambda>p. None), log = [], trace = []\<rparr>"


text \<open>Six little-endian floats, 1.0 to 6.0.\<close>

definition floats_2x3 :: "byte list" where
  "floats_2x3 = [0, 0, 0x80, 0x3F, 0, 0, 0, 0x40, 0, 0, 0x40, 0x40,
                 0, 0, 0x80, 0x40, 0, 0, 0xA0, 0x40, 0, 0, 0xC0, 0x40]"

text \<open>A session in the middle of a run, and tensors of a pass.\<close>

definition session0 :: callback_data where
  "session0 = \<lparr>data = [], cb_uid = 7, target_layer = ''l_out-15'', output_dir = ''out''\<rparr>"

definition tensor_host :: ggml_tensor where
  "tensor_host = \<lparr>t_type = GGML_TYPE_F32, buffer_is_host = True, ne = [2, 3, 1, 1],
                   t_data = floats_2x3, backend_bytes = floats_2x3, t_name = ''l_out-15'',
                   nbytes = 24\<rparr>"

text \<open>The same tensor in device memory: the host finds other bytes at \<open>t->data\<close>.\<close>

definition tensor_device :: ggml_tensor where
  "tensor_device = tensor_host\<lparr>buffer_is_host := False, t_data := [0xDE, 0xAD]\<rparr>"

definition tensor_other :: ggml_tensor where
  "tensor_other = tensor_host\<lparr>t_name := ''l_out-14''\<rparr>"

text \<open>
  An engine for the examples: one token per character, after the beginning-of-sequence
  token when asked for; a batch of more than three tokens fails to decode, any other
  batch computes two tensors.
\<close>

definition engine0 :: engine where
  "engine0 = \<lparr>add_bos = False,
              common_tokenize = (\<lambda>s bos. (if bos then [1] else []) @ map (\<lambda>c. of_nat (of_char c)) s),
              graph = (\<lambda>tk. if 3 < length tk then [] else [tensor_other, tensor_host]),
              decode_status = (\<lambda>tk. if 3 < length tk then 1 else 0)\<rparr>"

definition rec1 :: json_entry where
  "rec1 = \<lparr>uid = 1, question_text = ''hi'', answer_text = [], model_answer = [], target = []\<rparr>"

definition rec2 :: json_entry where
  "rec2 = \<lparr>uid = 2, question_text = [], answer_text = [], model_answer = [], target = []\<rparr>"

definition rec3 :: json_entry where
  "rec3 = \<lparr>uid = 3, question_text = ''yo'', answer_text = [], model_answer = [], target = []\<rparr>"

definition rec4 :: json_entry where
  "rec4 = \<lparr>uid = 4, question_text = ''hello'', answer_text = [], model_answer = [], target = []\<rparr>"

text \<open>The session \<open>main\<close> creates for the home directory \<open>/home/u\<close>.\<close>

definition session_main :: callback_data where
  "session_main = \<lparr>data = [], cb_uid = 0, target_layer = ''l_out-15'',
                    output_dir = ''/home/u/310-solution/npy_outputs/''\<rparr>"

text \<open>The file image of the example tensor.\<close>

definition image_2x3x1x1 :: "byte list" where
  \<open>image_2x3x1x1 =
     npy_bytes (pad_header ''{"descr": "<f4", "fortran_order": False, "shape": (2, 3, 1, 1)}'')
       floats_2x3 24\<close>

text \<open>A session whose staging buffer still holds thirty bytes of an earlier capture.\<close>

definition session_used :: callback_data where
  "session_used = session0\<lparr>data := replicate 30 0xFF\<rparr>"

section \<open>Arithmetic, words and decimal output\<close>










lemma shape_loop_tail:
  "i \<noteq> 0 \<Longrightarrow> shape_loop i xs hdr = hdr @ concat (map (\<lambda>x. '', '' @ show_int64 x) xs)"
  by (induction xs arbitrary: i hdr) simp_all

lemma comma_sep_Cons:
  "comma_sep (x # xs) = show_int64 x @ concat (map (\<lambda>x. '', '' @ show_int64 x) xs)"
  by (induction xs arbitrary: x) simp_all

lemma shape_loop_comma_sep: "shape_loop 0 xs hdr = hdr @ comma_sep xs"
  by (cases xs) (simp_all add: shape_loop_tail comma_sep_Cons)

lemma of_char_digit: "d < 10 \<Longrightarrow> of_char (digit_char d) = (48 + d :: nat)"
  by (simp add: digit_char_def)

lemma from_to_string: "from_string (to_string n) = n"
proof (induction n rule: to_string.induct)
  case (1 n)
  show ?case
  proof (cases "n < 10")
    case True
    then show ?thesis
      by (simp add: to_string.simps[of n] from_string_def of_char_digit)
  next
    case False
    have "from_string (to_string n) = 10 * from_string (to_string (n div 10)) + n mod 10"
      using False by (simp add: to_string.simps[of n] from_string_def of_char_digit)
    with 1[OF False] show ?thesis by simp
  qed
qed

lemma to_string_inj: "to_string m = to_string n \<Longrightarrow> m = n"
  by (metis from_to_string)






lemma npy_header_eq:
  \<open>ggml_type_to_numpy_descr type = Inr descr \<Longrightarrow>
   npy_header shape type =
     Inr (''{"descr": "'' @ descr @ ''", "fortran_order": False, "shape": ('' @ comma_sep shape
          @ (if length shape = 1 then '','' else []) @ '')}'')\<close>
  by (simp add: npy_header_def shape_loop_comma_sep)

lemma npy_header_Inr:
  "npy_header shape type = Inr header \<Longrightarrow> \<exists>descr. ggml_type_to_numpy_descr type = Inr descr"
  by (cases "ggml_type_to_numpy_descr type") (simp_all add: npy_header_def)



lemma digit_char_not_comma: "d < 10 \<Longrightarrow> digit_char d \<noteq> CHR '',''"
proof
  assume d: "d < 10" and "digit_char d = CHR '',''"
  then have "(of_char (digit_char d) :: nat) = of_char (CHR '','')" by simp
  then show False using d by (simp add: of_char_digit)
qed

lemma to_string_last: "to_string n \<noteq> [] \<and> last (to_string n) \<noteq> CHR '',''"
  by (simp add: to_string.simps[of n] digit_char_not_comma)

lemma show_int64_last: "show_int64 x \<noteq> [] \<and> last (show_int64 x) \<noteq> CHR '',''"
  using to_string_last by (simp add: show_int64_def)

lemma comma_sep_last: "xs \<noteq> [] \<Longrightarrow> comma_sep xs \<noteq> [] \<and> last (comma_sep xs) \<noteq> CHR '',''"
proof (induction xs rule: comma_sep.induct)
  case 1
  then show ?case by simp
next
  case (2 x)
  show ?case using show_int64_last[of x] by simp
next
  case (3 x y zs)
  then show ?case by simp
qed

lemma digit_char_eval:
  "digit_char 0 = CHR ''0''" "digit_char 1 = CHR ''1''" "digit_char 2 = CHR ''2''"
  "digit_char 3 = CHR ''3''" "digit_char 4 = CHR ''4''" "digit_char 5 = CHR ''5''"
  "digit_char 6 = CHR ''6''" "digit_char 7 = CHR ''7''" "digit_char 8 = CHR ''8''"
  "digit_char 9 = CHR ''9''" "digit_char (Suc 0) = CHR ''1''"
  unfolding digit_char_def by code_simp+

section \<open>Array Encoder: the file image\<close>

lemma stream_open: "\<lparr>written = [], room = r, good = True\<rparr> = stream_after r []"
  by (cases r) (simp_all add: stream_after_def accepted_def)

lemma stream_write_after: "stream_write (stream_after r xs) bs = stream_after r (xs @ bs)"
proof (cases r)
  case None
  then show ?thesis by (simp add: stream_write_def stream_after_def accepted_def)
next
  case (Some k)
  show ?thesis
  proof (cases "length xs \<le> k")
    case False
    then show ?thesis
      by (simp add: Some stream_write_def stream_after_def accepted_def)
  next
    case True
    show ?thesis
    proof (cases "length bs \<le> k - length xs")
      case fits: True
      then show ?thesis
        using True by (simp add: Some stream_write_def stream_after_def accepted_def)
    next
      case False
      then show ?thesis
        using True by (simp add: Some stream_write_def stream_after_def accepted_def)
    qed
  qed
qed

lemma written_stream_after: "written (stream_after r bs) = accepted r bs"
  by (simp add: stream_after_def)



lemma save_data_npy_open:
  assumes "npy_header shape type = Inr header" and "openable w path"
  shows "save_data_npy dat n_bytes shape type path w =
     Inr (w\<lparr>files := (files w)(path \<mapsto>
                accepted (write_room w path) (npy_bytes (pad_header header) dat n_bytes)),
            trace := trace w @ [FileWrite path]\<rparr>)"
  using assms
  by (simp add: save_data_npy_def Let_def stream_open stream_write_after written_stream_after
      npy_bytes_def)

lemma save_data_npy_Inr:
  assumes "save_data_npy dat n_bytes shape type path w = Inr w'"
  shows "\<exists>header. npy_header shape type = Inr header \<and> openable w path \<and>
           w' = w\<lparr>files := (files w)(path \<mapsto>
                     accepted (write_room w path) (npy_bytes (pad_header header) dat n_bytes)),
                   trace := trace w @ [FileWrite path]\<rparr>"
proof (cases "npy_header shape type")
  case (Inl e)
  then show ?thesis using assms by (simp add: save_data_npy_def)
next
  case (Inr header)
  show ?thesis
  proof (cases "openable w path")
    case False
    then show ?thesis using assms Inr by (simp add: save_data_npy_def Let_def)
  next
    case True
    from save_data_npy_open[OF Inr True] assms Inr True show ?thesis by simp
  qed
qed



lemma show_int64_small:
  "show_int64 1 = ''1''" "show_int64 2 = ''2''" "show_int64 3 = ''3''" "show_int64 5 = ''5''"
  by (simp_all add: show_int64_def to_string.simps digit_char_eval)



lemma header_trailing_comma:
  assumes "ggml_type_to_numpy_descr type = Inr descr"
      and "npy_header shape type = Inr h"
  shows "(\<exists>pre. h = pre @ '',)}'') \<longleftrightarrow> length shape = 1"
proof -
  define fx where \<open>fx = ''{"descr": "'' @ descr @ ''", "fortran_order": False, "shape": (''\<close>
  have fx_last: "fx \<noteq> [] \<and> last fx \<noteq> CHR '',''"
    by (simp add: fx_def)
  have h_def: "h = fx @ comma_sep shape @ (if length shape = 1 then '','' else []) @ '')}''"
    using assms(2) unfolding npy_header_eq[OF assms(1)] by (simp add: fx_def)
  show ?thesis
  proof (cases "length shape = 1")
    case True
    have "h = (fx @ comma_sep shape) @ '',)}''" using True by (simp add: h_def)
    then show ?thesis using True by blast
  next
    case False
    have no: "last (fx @ comma_sep shape) \<noteq> CHR '',''"
    proof (cases "shape = []")
      case True
      then show ?thesis using fx_last by simp
    next
      case False
      from comma_sep_last[OF this] show ?thesis by simp
    qed
    have "h \<noteq> pre @ '',)}''" for pre
    proof
      assume p: "h = pre @ '',)}''"
      have "h = (fx @ comma_sep shape) @ '')}''" using False by (simp add: h_def)
      with p have "(fx @ comma_sep shape) @ '')}'' = (pre @ '','') @ '')}''" by simp
      then have "fx @ comma_sep shape = pre @ '',''" by (simp only: append_same_eq)
      then have "last (fx @ comma_sep shape) = CHR '',''" by simp
      with no show False by simp
    qed
    with False show ?thesis by simp
  qed
qed

section \<open>Type Descriptor Mapper: the table\<close>

text \<open>
  C2. The Type Descriptor Mapper returns the descriptor of the fixed table for each of
  the eleven supported element types, and for every tag outside the table it fails with
  UnsupportedType and returns no descriptor.
\<close>

theorem ggml_type_to_numpy_descr_table:
  "ggml_type_to_numpy_descr GGML_TYPE_F32 = Inr ''<f4'' \<and>
   ggml_type_to_numpy_descr GGML_TYPE_F16 = Inr ''<f2'' \<and>
   ggml_type_to_numpy_descr GGML_TYPE_Q4_0 = Inr ''<i1'' \<and>
   ggml_type_to_numpy_descr GGML_TYPE_Q4_1 = Inr ''<i1'' \<and>
   ggml_type_to_numpy_descr GGML_TYPE_Q5_0 = Inr ''<i1'' \<and>
   ggml_type_to_numpy_descr GGML_TYPE_Q5_1 = Inr ''<i1'' \<and>
   ggml_type_to_numpy_descr GGML_TYPE_Q8_0 = Inr ''<i1'' \<and>
   ggml_type_to_numpy_descr GGML_TYPE_I8 = Inr ''<i1'' \<and>
   ggml_type_to_numpy_descr GGML_TYPE_I16 = Inr ''<i2'' \<and>
   ggml_type_to_numpy_descr GGML_TYPE_I32 = Inr ''<i4'' \<and>
   ggml_type_to_numpy_descr GGML_TYPE_I64 = Inr ''<i8'' \<and>
   (\<forall>t. t \<notin> {GGML_TYPE_F32, GGML_TYPE_F16, GGML_TYPE_Q4_0, GGML_TYPE_Q4_1, GGML_TYPE_Q5_0,
              GGML_TYPE_Q5_1, GGML_TYPE_Q8_0, GGML_TYPE_I8, GGML_TYPE_I16, GGML_TYPE_I32,
              GGML_TYPE_I64} \<longrightarrow>
        ggml_type_to_numpy_descr t = Inl UnsupportedType \<and>
        (\<forall>d. ggml_type_to_numpy_descr t \<noteq> Inr d))"
proof -
  have "ggml_type_to_numpy_descr t = Inl UnsupportedType \<and> (\<forall>d. ggml_type_to_numpy_descr t \<noteq> Inr d)"
    if "t \<notin> {GGML_TYPE_F32, GGML_TYPE_F16, GGML_TYPE_Q4_0, GGML_TYPE_Q4_1, GGML_TYPE_Q5_0,
              GGML_TYPE_Q5_1, GGML_TYPE_Q8_0, GGML_TYPE_I8, GGML_TYPE_I16, GGML_TYPE_I32,
              GGML_TYPE_I64}" for t
    using that by (cases t) simp_all
  then show ?thesis by simp
qed

theorem ggml_type_to_numpy_descr_table_witness:
  "GGML_TYPE_OTHER 9 \<notin> {GGML_TYPE_F32, GGML_TYPE_F16, GGML_TYPE_Q4_0, GGML_TYPE_Q4_1, GGML_TYPE_Q5_0,
              GGML_TYPE_Q5_1, GGML_TYPE_Q8_0, GGML_TYPE_I8, GGML_TYPE_I16, GGML_TYPE_I32,
              GGML_TYPE_I64} \<and>
   ggml_type_to_numpy_descr (GGML_TYPE_OTHER 9) = Inl (runtime_error ''Unsupported ggml type'') \<and>
   ggml_type_to_numpy_descr GGML_TYPE_Q8_0 = Inr ''<i1''"
proof -
  have out: "GGML_TYPE_OTHER 9 \<notin> {GGML_TYPE_F32, GGML_TYPE_F16, GGML_TYPE_Q4_0, GGML_TYPE_Q4_1,
              GGML_TYPE_Q5_0, GGML_TYPE_Q5_1, GGML_TYPE_Q8_0, GGML_TYPE_I8, GGML_TYPE_I16,
              GGML_TYPE_I32, GGML_TYPE_I64}"
    by simp
  from ggml_type_to_numpy_descr_table
  have tab: "\<forall>t. t \<notin> {GGML_TYPE_F32, GGML_TYPE_F16, GGML_TYPE_Q4_0, GGML_TYPE_Q4_1, GGML_TYPE_Q5_0,
              GGML_TYPE_Q5_1, GGML_TYPE_Q8_0, GGML_TYPE_I8, GGML_TYPE_I16, GGML_TYPE_I32,
              GGML_TYPE_I64} \<longrightarrow>
        ggml_type_to_numpy_descr t = Inl UnsupportedType \<and>
        (\<forall>d. ggml_type_to_numpy_descr t \<noteq> Inr d)"
    and q8: "ggml_type_to_numpy_descr GGML_TYPE_Q8_0 = Inr ''<i1''"
    by blast+
  from tab out have "ggml_type_to_numpy_descr (GGML_TYPE_OTHER 9) = Inl UnsupportedType"
    by blast
  with out q8 show ?thesis by (simp only: UnsupportedType_def simp_thms)
qed

section \<open>Array Encoder: the header text\<close>

text \<open>
  C3. Whenever the element type has a descriptor, the unpadded header is the dictionary
  text with the keys descr, fortran_order (the literal False) and shape in this order;
  the shape is the comma-space-separated list of the integers in parentheses, and the
  text ends in a comma before the closing parenthesis exactly when the shape has one
  dimension.
\<close>

theorem npy_header_text:
  assumes "ggml_type_to_numpy_descr type = Inr descr"
  shows \<open>\<exists>header. npy_header shape type = Inr header \<and>
     header = ''{"descr": "'' @ descr @ ''", "fortran_order": False, "shape": (''
              @ comma_sep shape @ (if length shape = 1 then '','' else []) @ '')}'' \<and>
     ((\<exists>pre. header = pre @ '',)}'') \<longleftrightarrow> length shape = 1)\<close>
proof -
  define h where \<open>h = ''{"descr": "'' @ descr @ ''", "fortran_order": False, "shape": (''
              @ comma_sep shape @ (if length shape = 1 then '','' else []) @ '')}''\<close>
  have eq: "npy_header shape type = Inr h"
    unfolding h_def by (rule npy_header_eq[OF assms])
  have tc: "(\<exists>pre. h = pre @ '',)}'') \<longleftrightarrow> length shape = 1"
    by (rule header_trailing_comma[OF assms eq])
  show ?thesis
    by (rule exI[of _ h], intro conjI) (rule eq, rule h_def, rule tc)
qed

theorem npy_header_text_witness:
  \<open>npy_header [5] GGML_TYPE_F32 = Inr ''{"descr": "<f4", "fortran_order": False, "shape": (5,)}'' \<and>
   npy_header [2, 3] GGML_TYPE_F32 = Inr ''{"descr": "<f4", "fortran_order": False, "shape": (2, 3)}''\<close>
proof -
  have d: "ggml_type_to_numpy_descr GGML_TYPE_F32 = Inr ''<f4''" by simp
  have s: "show_int64 5 = ''5''" "show_int64 2 = ''2''" "show_int64 3 = ''3''"
    by (simp_all add: show_int64_def to_string.simps digit_char_eval)
  from npy_header_text[OF d, of "[5]"]
  have one: \<open>npy_header [5] GGML_TYPE_F32 = Inr ''{"descr": "<f4", "fortran_order": False, "shape": (5,)}''\<close>
    by (auto simp: s)
  from npy_header_text[OF d, of "[2, 3]"]
  have two: \<open>npy_header [2, 3] GGML_TYPE_F32 = Inr ''{"descr": "<f4", "fortran_order": False, "shape": (2, 3)}''\<close>
    by (auto simp: s)
  from one two show ?thesis by (rule conjI)
qed




section \<open>Tensor Capture Hook: one act phase\<close>

lemma ggml_debug_ask: "ggml_debug max_dims t True s = Inr (True, s)"
  by (simp add: ggml_debug_def)

lemma ggml_debug_other:
  "t_name t \<noteq> target_layer cb \<Longrightarrow> ggml_debug max_dims t False (cb, w) = Inr (True, cb, w)"
  by (simp add: ggml_debug_def)

lemma resize_length: "length (resize v n) = n"
  by (simp add: resize_def)

lemma data_ptr_of_host:
  "buffer_is_host t \<Longrightarrow> data_ptr_of t cb w = Inr (cb, w, t_data t)"
  by (simp add: data_ptr_of_def Let_def)

lemma data_ptr_of_fetch:
  assumes "\<not> buffer_is_host t"
  shows "data_ptr_of t cb w =
     (case ggml_backend_tensor_get t (resize (data cb) (nbytes t)) 0 (nbytes t) of
        None \<Rightarrow> Inl (engine_abort, cb\<lparr>data := resize (data cb) (nbytes t)\<rparr>,
                    w\<lparr>trace := trace w @ [Resize (nbytes t)]\<rparr>)
      | Some fetched \<Rightarrow>
          Inr (cb\<lparr>data := fetched\<rparr>,
               w\<lparr>trace := trace w @ [Resize (nbytes t), TensorGet (t_name t) (nbytes t)]\<rparr>,
               fetched))"
  using assms
  by (cases "ggml_backend_tensor_get t (resize (data cb) (nbytes t)) 0 (nbytes t)")
     (simp_all add: data_ptr_of_def Let_def)

lemma fetch_into_resized:
  assumes "nbytes t \<le> length (backend_bytes t)"
  shows "ggml_backend_tensor_get t (resize v (nbytes t)) 0 (nbytes t) =
           Some (take (nbytes t) (backend_bytes t))"
  using assms by (simp add: ggml_backend_tensor_get_def resize_length)

lemma data_ptr_of_device:
  assumes "\<not> buffer_is_host t" and "nbytes t \<le> length (backend_bytes t)"
  shows "data_ptr_of t cb w =
     Inr (cb\<lparr>data := take (nbytes t) (backend_bytes t)\<rparr>,
          w\<lparr>trace := trace w @ [Resize (nbytes t), TensorGet (t_name t) (nbytes t)]\<rparr>,
          take (nbytes t) (backend_bytes t))"
  unfolding data_ptr_of_fetch[OF assms(1)] fetch_into_resized[OF assms(2)] by simp

lemma data_ptr_of_session_both:
  assumes "data_ptr_of t cb w = Inr (cb1, w1, dat)"
  shows "out_path cb1 = out_path cb \<and> write_room w1 = write_room w"
proof (cases "buffer_is_host t")
  case True
  then show ?thesis
    using assms by (simp add: data_ptr_of_host)
next
  case False
  show ?thesis
    using assms unfolding data_ptr_of_fetch[OF False]
    by (cases "ggml_backend_tensor_get t (resize (data cb) (nbytes t)) 0 (nbytes t)")
       (auto simp: out_path_def)
qed

lemma data_ptr_of_session:
  assumes "data_ptr_of t cb w = Inr (cb1, w1, dat)"
  shows "out_path cb1 = out_path cb" and "write_room w1 = write_room w"
  using data_ptr_of_session_both[OF assms] by simp_all

lemma ggml_debug_match:
  assumes "t_name t = target_layer cb"
  shows "ggml_debug max_dims t False (cb, w) =
     (case data_ptr_of t cb w of
        Inl x \<Rightarrow> Inl x
      | Inr (cb1, w1, dat) \<Rightarrow>
          (case save_data_npy dat (nbytes t) (build_shape max_dims t) (t_type t) (out_path cb) w1 of
             Inl e \<Rightarrow> Inl (e, cb1, w1)
           | Inr w' \<Rightarrow> Inr (True, cb1, w')))"
proof (cases "data_ptr_of t cb w")
  case (Inl x)
  then show ?thesis using assms by (simp add: ggml_debug_def)
next
  case (Inr y)
  obtain cb1 w1 dat where y: "y = (cb1, w1, dat)" by (cases y)
  have "out_path cb1 = out_path cb"
    using data_ptr_of_session(1)[of t cb w cb1 w1 dat] Inr by (simp add: y)
  then show ?thesis
    using assms by (simp add: ggml_debug_def Inr y Let_def)
qed

lemma build_shape_eq:
  "build_shape max_dims t = (if max_dims = 0 then [1] else map (\<lambda>i. ne t ! i) [0..<max_dims])"
  by (simp add: build_shape_def Let_def)

lemma map_nth_all: "length xs = n \<Longrightarrow> map (\<lambda>i. xs ! i) [0..<n] = xs"
  by (auto simp: map_nth)

text \<open>
  C6. In the act phase, for a tensor whose name differs from the target name, the hook
  returns true with the session and the world as they were: the staging buffer is not
  resized, nothing is fetched and no file is written.
\<close>

theorem ggml_debug_other_name_unchanged:
  assumes "t_name t \<noteq> target_layer cb"
  shows "ggml_debug max_dims t False (cb, w) = Inr (True, cb, w)"
  using assms by (rule ggml_debug_other)

theorem ggml_debug_other_name_unchanged_witness:
  "t_name tensor_other \<noteq> target_layer session0 \<and>
   ggml_debug 4 tensor_other False (session0, world0) = Inr (True, session0, world0)"
proof -
  have n: "t_name tensor_other \<noteq> target_layer session0"
    by (simp add: tensor_other_def tensor_host_def session0_def)
  from n ggml_debug_other_name_unchanged[OF n] show ?thesis by (rule conjI)
qed

text \<open>
  C7. In the act phase for a matching tensor the encoder is called with the shape made
  of the tensor's sizes, one entry per index below the maximum rank: with the
  \<open>GGML_MAX_DIMS\<close> entries of \<open>ne\<close> this is \<open>ne\<close> itself, trailing entries of size 1
  included; the shape \<open>(1)\<close> takes its place only when the maximum rank is zero.
\<close>

theorem hook_shape_full_rank:
  assumes "t_name t = target_layer cb" and "length (ne t) = max_dims"
  shows "ggml_debug max_dims t False (cb, w) =
     (case data_ptr_of t cb w of
        Inl x \<Rightarrow> Inl x
      | Inr (cb1, w1, dat) \<Rightarrow>
          (case save_data_npy dat (nbytes t) (if max_dims = 0 then [1] else ne t) (t_type t)
                  (out_path cb) w1 of
             Inl e \<Rightarrow> Inl (e, cb1, w1)
           | Inr w' \<Rightarrow> Inr (True, cb1, w')))
     \<and> (build_shape max_dims t \<noteq> ne t \<longrightarrow> max_dims = 0)
     \<and> (max_dims \<noteq> 0 \<longrightarrow> length (build_shape max_dims t) = max_dims)"
proof -
  have s: "build_shape max_dims t = (if max_dims = 0 then [1] else ne t)"
    using assms(2) by (simp add: build_shape_eq map_nth_all)
  show ?thesis
    unfolding ggml_debug_match[OF assms(1)] s using assms(2) by simp
qed

theorem hook_shape_full_rank_witness:
  "build_shape 4 tensor_host = [2, 3, 1, 1] \<and>
   ggml_debug 4 tensor_host False (session0, world0) =
     (case save_data_npy floats_2x3 24 [2, 3, 1, 1] GGML_TYPE_F32 ''out/7.npy'' world0 of
        Inl e \<Rightarrow> Inl (e, session0, world0)
      | Inr w' \<Rightarrow> Inr (True, session0, w'))"
proof -
  have n: "t_name tensor_host = target_layer session0"
    by (simp add: tensor_host_def session0_def)
  have l: "length (ne tensor_host) = 4"
    by (simp add: tensor_host_def)
  have p: "out_path session0 = ''out/7.npy''"
    by (simp add: out_path_def session0_def to_string.simps digit_char_eval)
  have d: "data_ptr_of tensor_host session0 world0 = Inr (session0, world0, floats_2x3)"
    by (simp add: data_ptr_of_host tensor_host_def)
  from hook_shape_full_rank[OF n l, of world0]
  have "ggml_debug 4 tensor_host False (session0, world0) =
     (case save_data_npy floats_2x3 24 [2, 3, 1, 1] GGML_TYPE_F32 ''out/7.npy'' world0 of
        Inl e \<Rightarrow> Inl (e, session0, world0)
      | Inr w' \<Rightarrow> Inr (True, session0, w'))"
    and "build_shape 4 tensor_host \<noteq> ne tensor_host \<longrightarrow> (4::nat) = 0"
    by (simp_all add: d p) (simp_all add: tensor_host_def)
  then show ?thesis by (simp add: tensor_host_def)
qed

lemma ggml_debug_match_Inr:
  assumes "t_name t = target_layer cb"
      and "ggml_debug max_dims t False (cb, w) = Inr (r, cb', w')"
  shows "\<exists>header cb1 w1 dat.
           npy_header (build_shape max_dims t) (t_type t) = Inr header \<and>
           data_ptr_of t cb w = Inr (cb1, w1, dat) \<and>
           files w' (out_path cb) =
             Some (accepted (write_room w (out_path cb))
                     (npy_bytes (pad_header header) dat (nbytes t)))"
proof (cases "data_ptr_of t cb w")
  case (Inl x)
  then show ?thesis
    using assms(2) unfolding ggml_debug_match[OF assms(1)] by simp
next
  case (Inr y)
  obtain cb1 w1 dat where d: "data_ptr_of t cb w = Inr (cb1, w1, dat)"
    using Inr by (cases y) simp
  from assms(2) obtain w2 where
    s: "save_data_npy dat (nbytes t) (build_shape max_dims t) (t_type t) (out_path cb) w1 = Inr w2"
    and w': "w' = w2"
    unfolding ggml_debug_match[OF assms(1)] d
    by (cases "save_data_npy dat (nbytes t) (build_shape max_dims t) (t_type t) (out_path cb) w1")
       auto
  from save_data_npy_Inr[OF s] obtain header where
    h: "npy_header (build_shape max_dims t) (t_type t) = Inr header" and
    w2: "w2 = w1\<lparr>files := (files w1)(out_path cb \<mapsto>
                     accepted (write_room w1 (out_path cb))
                       (npy_bytes (pad_header header) dat (nbytes t))),
                   trace := trace w1 @ [FileWrite (out_path cb)]\<rparr>"
    by blast
  have "files w' (out_path cb) =
          Some (accepted (write_room w (out_path cb)) (npy_bytes (pad_header header) dat (nbytes t)))"
    by (simp add: w' w2 data_ptr_of_session(2)[OF d])
  with h d show ?thesis by blast
qed

text \<open>
  C9. With a maximum rank of at least 2 (ggml.h defines \<open>GGML_MAX_DIMS\<close> as 4) the
  shape the hook hands to the encoder has exactly that many entries, the loop's result is
  never empty, so \<open>(1)\<close> is never substituted, and the header of a file written through
  the hook never ends in the single-dimension comma.
\<close>

theorem hook_shape_never_single:
  assumes "2 \<le> max_dims"
      and "t_name t = target_layer cb"
      and "ggml_debug max_dims t False (cb, w) = Inr (r, cb', w')"
  shows "length (build_shape max_dims t) = max_dims \<and>
         map (\<lambda>i. ne t ! i) [0..<max_dims] \<noteq> [] \<and>
         build_shape max_dims t = map (\<lambda>i. ne t ! i) [0..<max_dims] \<and>
         (\<exists>header cb1 w1 dat.
            npy_header (build_shape max_dims t) (t_type t) = Inr header \<and>
            data_ptr_of t cb w = Inr (cb1, w1, dat) \<and>
            files w' (out_path cb) =
              Some (accepted (write_room w (out_path cb))
                      (npy_bytes (pad_header header) dat (nbytes t))) \<and>
            \<not> (\<exists>pre. header = pre @ '',)}''))"
proof -
  have len: "length (build_shape max_dims t) = max_dims"
    using assms(1) by (simp add: build_shape_eq)
  have ne: "map (\<lambda>i. ne t ! i) [0..<max_dims] \<noteq> []"
    using assms(1) by simp
  have eq: "build_shape max_dims t = map (\<lambda>i. ne t ! i) [0..<max_dims]"
    using assms(1) by (simp add: build_shape_eq)
  from ggml_debug_match_Inr[OF assms(2,3)] obtain header cb1 w1 dat where
    h: "npy_header (build_shape max_dims t) (t_type t) = Inr header" and
    d: "data_ptr_of t cb w = Inr (cb1, w1, dat)" and
    f: "files w' (out_path cb) =
          Some (accepted (write_room w (out_path cb))
                  (npy_bytes (pad_header header) dat (nbytes t)))"
    by blast
  from npy_header_Inr[OF h] obtain descr where g: "ggml_type_to_numpy_descr (t_type t) = Inr descr"
    by blast
  have "\<not> (\<exists>pre. header = pre @ '',)}'')"
    using header_trailing_comma[OF g h] len assms(1) by simp
  with h d f have "\<exists>header cb1 w1 dat.
            npy_header (build_shape max_dims t) (t_type t) = Inr header \<and>
            data_ptr_of t cb w = Inr (cb1, w1, dat) \<and>
            files w' (out_path cb) =
              Some (accepted (write_room w (out_path cb))
                      (npy_bytes (pad_header header) dat (nbytes t))) \<and>
            \<not> (\<exists>pre. header = pre @ '',)}'')"
    by (intro exI[of _ header] exI[of _ cb1] exI[of _ w1] exI[of _ dat] conjI)
  with len ne eq show ?thesis by (intro conjI)
qed

lemma out_path_session0: "out_path session0 = ''out/7.npy''"
  by (simp add: out_path_def session0_def to_string.simps digit_char_eval)

lemma npy_header_2x3x1x1:
  \<open>npy_header [2, 3, 1, 1] GGML_TYPE_F32 =
     Inr ''{"descr": "<f4", "fortran_order": False, "shape": (2, 3, 1, 1)}''\<close>
  by (simp add: npy_header_def show_int64_small)

lemma build_shape_tensor_host: "build_shape 4 tensor_host = [2, 3, 1, 1]"
proof -
  have "[0..<4] = [0, 1, 2, 3]" by (simp add: upt_rec)
  then show ?thesis by (simp add: build_shape_def tensor_host_def)
qed

lemma save_example_tensor:
  "save_data_npy floats_2x3 24 [2, 3, 1, 1] GGML_TYPE_F32 path w =
     (if openable w path
      then Inr (w\<lparr>files := (files w)(path \<mapsto> accepted (write_room w path) image_2x3x1x1),
                  trace := trace w @ [FileWrite path]\<rparr>)
      else Inl (IOError path))"
proof (cases "openable w path")
  case True
  from save_data_npy_open[OF npy_header_2x3x1x1 True] show ?thesis
    by (simp add: True image_2x3x1x1_def)
next
  case False
  then show ?thesis
    by (simp add: save_data_npy_def npy_header_2x3x1x1 Let_def)
qed

lemma hook_example_tensor:
  assumes "target_layer cb = ''l_out-15''"
  shows "ggml_debug 4 tensor_host False (cb, w) =
     (if openable w (out_path cb)
      then Inr (True, cb, w\<lparr>files := (files w)(out_path cb \<mapsto>
                                accepted (write_room w (out_path cb)) image_2x3x1x1),
                             trace := trace w @ [FileWrite (out_path cb)]\<rparr>)
      else Inl (IOError (out_path cb), cb, w))"
proof -
  have n: "t_name tensor_host = target_layer cb"
    using assms by (simp add: tensor_host_def)
  have d: "data_ptr_of tensor_host cb w = Inr (cb, w, floats_2x3)"
    by (simp add: data_ptr_of_host tensor_host_def)
  have f: "t_type tensor_host = GGML_TYPE_F32" "nbytes tensor_host = 24"
    by (simp_all add: tensor_host_def)
  show ?thesis
    unfolding ggml_debug_match[OF n] d
    by (simp add: f build_shape_tensor_host save_example_tensor)
qed

lemma hook_host_run:
  \<open>ggml_debug 4 tensor_host False (session0, world0) =
     Inr (True, session0,
          world0\<lparr>files := (files world0)(''out/7.npy'' \<mapsto>
                     npy_bytes (pad_header ''{"descr": "<f4", "fortran_order": False, "shape": (2, 3, 1, 1)}'')
                       floats_2x3 24),
                  trace := trace world0 @ [FileWrite ''out/7.npy'']\<rparr>)\<close>
proof -
  have t: "target_layer session0 = ''l_out-15''"
    by (simp add: session0_def)
  have op: "openable world0 ''out/7.npy''" "write_room world0 ''out/7.npy'' = None"
    by (simp_all add: world0_def locked_path_def)
  show ?thesis
    unfolding hook_example_tensor[OF t] out_path_session0
    by (simp add: op accepted_def image_2x3x1x1_def)
qed

theorem hook_shape_never_single_witness:
  \<open>length (build_shape 4 tensor_host) = 4 \<and>
   build_shape 4 tensor_host = map (\<lambda>i. ne tensor_host ! i) [0..<4] \<and>
   (\<exists>header. npy_header (build_shape 4 tensor_host) GGML_TYPE_F32 = Inr header \<and>
      files (snd (snd (projr (ggml_debug 4 tensor_host False (session0, world0))))) ''out/7.npy'' =
        Some (npy_bytes (pad_header header) floats_2x3 24) \<and>
      \<not> (\<exists>pre. header = pre @ '',)}''))\<close>
proof -
  define w' where "w' = snd (snd (projr (ggml_debug 4 tensor_host False (session0, world0))))"
  have two: "(2::nat) \<le> 4" by simp
  have n: "t_name tensor_host = target_layer session0"
    by (simp add: tensor_host_def session0_def)
  have run: "ggml_debug 4 tensor_host False (session0, world0) = Inr (True, session0, w')"
    unfolding w'_def hook_host_run by simp
  have d: "data_ptr_of tensor_host session0 world0 = Inr (session0, world0, floats_2x3)"
    by (simp add: data_ptr_of_host tensor_host_def)
  have f: "t_type tensor_host = GGML_TYPE_F32" "nbytes tensor_host = 24"
    by (simp_all add: tensor_host_def)
  have no_limit: "accepted (write_room world0 ''out/7.npy'') bs = bs" for bs
    by (simp add: world0_def accepted_def)
  note r = hook_shape_never_single[OF two n run, unfolded d f out_path_session0 no_limit]
  from r have a: "length (build_shape 4 tensor_host) = 4"
    by (rule conjunct1)
  from r have b: "build_shape 4 tensor_host = map (\<lambda>i. ne tensor_host ! i) [0..<4]"
    by (elim conjE)
  from r obtain header where
    "npy_header (build_shape 4 tensor_host) GGML_TYPE_F32 = Inr header"
    "files w' ''out/7.npy'' = Some (npy_bytes (pad_header header) floats_2x3 24)"
    "\<not> (\<exists>pre. header = pre @ '',)}'')"
    by auto
  then have "\<exists>header. npy_header (build_shape 4 tensor_host) GGML_TYPE_F32 = Inr header \<and>
      files w' ''out/7.npy'' = Some (npy_bytes (pad_header header) floats_2x3 24) \<and>
      \<not> (\<exists>pre. header = pre @ '',)}'')"
    by (intro exI[of _ header] conjI)
  with a b show ?thesis unfolding w'_def by (intro conjI)
qed

text \<open>
  C5. In the act phase for a matching tensor whose buffer is not on the host and whose
  backend buffer holds its byte length of bytes: the staging buffer is resized to exactly
  the byte length, the one fetch writes that many bytes of the tensor's contents into
  it, within its bounds, and the call ends as the call on a host tensor with the same
  contents, shape and type ends, with the same file contents or the same exception.
\<close>

theorem device_path_same_file:
  assumes "t_name t = target_layer cb"
      and "\<not> buffer_is_host t"
      and "nbytes t \<le> length (backend_bytes t)"
  shows "length (resize (data cb) (nbytes t)) = nbytes t \<and>
         ggml_backend_tensor_get t (resize (data cb) (nbytes t)) 0 (nbytes t) =
           Some (take (nbytes t) (backend_bytes t)) \<and>
         length (take (nbytes t) (backend_bytes t)) = nbytes t \<and>
         (case ggml_debug max_dims (t\<lparr>buffer_is_host := True, t_data := backend_bytes t\<rparr>) False (cb, w) of
            Inr (r, cb_h, w_h) \<Rightarrow>
              ggml_debug max_dims t False (cb, w) =
                Inr (r, cb\<lparr>data := take (nbytes t) (backend_bytes t)\<rparr>,
                     w_h\<lparr>trace := trace w @ [Resize (nbytes t), TensorGet (t_name t) (nbytes t),
                                              FileWrite (out_path cb)]\<rparr>)
          | Inl (e, cb_h, w_h) \<Rightarrow>
              ggml_debug max_dims t False (cb, w) =
                Inl (e, cb\<lparr>data := take (nbytes t) (backend_bytes t)\<rparr>,
                     w_h\<lparr>trace := trace w @ [Resize (nbytes t), TensorGet (t_name t) (nbytes t)]\<rparr>))"
proof -
  let ?th = "t\<lparr>buffer_is_host := True, t_data := backend_bytes t\<rparr>"
  let ?dat = "take (nbytes t) (backend_bytes t)"
  let ?w1 = "w\<lparr>trace := trace w @ [Resize (nbytes t), TensorGet (t_name t) (nbytes t)]\<rparr>"
  have nh: "t_name ?th = target_layer cb" using assms(1) by simp
  have host: "ggml_debug max_dims ?th False (cb, w) =
     (case save_data_npy (backend_bytes t) (nbytes t) (build_shape max_dims t) (t_type t) (out_path cb) w of
        Inl e \<Rightarrow> Inl (e, cb, w)
      | Inr w' \<Rightarrow> Inr (True, cb, w'))"
    unfolding ggml_debug_match[OF nh] by (simp add: data_ptr_of_host build_shape_def)
  have dev: "ggml_debug max_dims t False (cb, w) =
     (case save_data_npy ?dat (nbytes t) (build_shape max_dims t) (t_type t) (out_path cb) ?w1 of
        Inl e \<Rightarrow> Inl (e, cb\<lparr>data := ?dat\<rparr>, ?w1)
      | Inr w' \<Rightarrow> Inr (True, cb\<lparr>data := ?dat\<rparr>, w'))"
    unfolding ggml_debug_match[OF assms(1)] data_ptr_of_device[OF assms(2,3)] by simp
  have same: "case ggml_debug max_dims ?th False (cb, w) of
            Inr (r, cb_h, w_h) \<Rightarrow>
              ggml_debug max_dims t False (cb, w) =
                Inr (r, cb\<lparr>data := ?dat\<rparr>,
                     w_h\<lparr>trace := trace w @ [Resize (nbytes t), TensorGet (t_name t) (nbytes t),
                                              FileWrite (out_path cb)]\<rparr>)
          | Inl (e, cb_h, w_h) \<Rightarrow>
              ggml_debug max_dims t False (cb, w) =
                Inl (e, cb\<lparr>data := ?dat\<rparr>,
                     w_h\<lparr>trace := trace w @ [Resize (nbytes t), TensorGet (t_name t) (nbytes t)]\<rparr>)"
  proof (cases "npy_header (build_shape max_dims t) (t_type t)")
    case (Inl e)
    then show ?thesis unfolding host dev by (simp add: save_data_npy_def)
  next
    case (Inr header)
    show ?thesis
    proof (cases "openable w (out_path cb)")
      case False
      then show ?thesis unfolding host dev by (simp add: save_data_npy_def Inr Let_def)
    next
      case True
      then have o1: "openable ?w1 (out_path cb)" by simp
      show ?thesis
        unfolding host dev save_data_npy_open[OF Inr True] save_data_npy_open[OF Inr o1]
        by (simp add: npy_bytes_def Let_def)
    qed
  qed
  have a: "length (resize (data cb) (nbytes t)) = nbytes t"
    by (rule resize_length)
  have b: "ggml_backend_tensor_get t (resize (data cb) (nbytes t)) 0 (nbytes t) = Some ?dat"
    by (rule fetch_into_resized[OF assms(3)])
  have c: "length ?dat = nbytes t" using assms(3) by simp
  from a b c same show ?thesis by (intro conjI)
qed

theorem device_path_same_file_witness:
  "ggml_debug 4 tensor_device False (session_used, world0) =
     Inr (True, session_used\<lparr>data := floats_2x3\<rparr>,
          world0\<lparr>files := (files world0)(''out/7.npy'' \<mapsto> image_2x3x1x1),
                  trace := [Resize 24, TensorGet ''l_out-15'' 24, FileWrite ''out/7.npy'']\<rparr>)
   \<and> length (resize (data session_used) 24) = 24
   \<and> ggml_backend_tensor_get tensor_device (resize (data session_used) 24) 0 24 = Some floats_2x3"
proof -
  have n: "t_name tensor_device = target_layer session_used"
    by (simp add: tensor_device_def tensor_host_def session_used_def session0_def)
  have d: "\<not> buffer_is_host tensor_device"
    by (simp add: tensor_device_def)
  have l: "nbytes tensor_device \<le> length (backend_bytes tensor_device)"
    by (simp add: tensor_device_def tensor_host_def floats_2x3_def)
  have th: "tensor_device\<lparr>buffer_is_host := True, t_data := backend_bytes tensor_device\<rparr> = tensor_host"
    by (simp add: tensor_device_def tensor_host_def)
  have tk: "take 24 (backend_bytes tensor_device) = floats_2x3"
    by (simp add: tensor_device_def tensor_host_def floats_2x3_def)
  have v: "nbytes tensor_device = 24" "t_name tensor_device = ''l_out-15''" "trace world0 = []"
    by (simp_all add: tensor_device_def tensor_host_def world0_def)
  have t: "target_layer session_used = ''l_out-15''"
    by (simp add: session_used_def session0_def)
  have p: "out_path session_used = ''out/7.npy''"
    using out_path_session0 by (simp add: out_path_def session_used_def)
  have op: "openable world0 ''out/7.npy''" "write_room world0 ''out/7.npy'' = None"
    by (simp_all add: world0_def locked_path_def)
  have host: "ggml_debug 4 tensor_host False (session_used, world0) =
     Inr (True, session_used,
          world0\<lparr>files := (files world0)(''out/7.npy'' \<mapsto> image_2x3x1x1),
                  trace := [FileWrite ''out/7.npy'']\<rparr>)"
    unfolding hook_example_tensor[OF t] p by (simp add: op accepted_def v)
  note r = device_path_same_file[OF n d l, of 4 world0, unfolded th v tk host p]
  from r have a: "length (resize (data session_used) 24) = 24"
    by (rule conjunct1)
  from r have b: "ggml_backend_tensor_get tensor_device (resize (data session_used) 24) 0 24 = Some floats_2x3"
    by (elim conjE)
  from r have c: "ggml_debug 4 tensor_device False (session_used, world0) =
     Inr (True, session_used\<lparr>data := floats_2x3\<rparr>,
          world0\<lparr>files := (files world0)(''out/7.npy'' \<mapsto> image_2x3x1x1),
                  trace := [Resize 24, TensorGet ''l_out-15'' 24, FileWrite ''out/7.npy'']\<rparr>)"
    by simp
  from c a b show ?thesis by (intro conjI)
qed

section \<open>What a pass may change\<close>

lemma out_path_cong:
  "cb_uid cb' = cb_uid cb \<Longrightarrow> output_dir cb' = output_dir cb \<Longrightarrow> out_path cb' = out_path cb"
  by (simp add: out_path_def)

lemma pass_frameI:
  assumes "cb_uid (fst s') = cb_uid (fst s)"
      and "target_layer (fst s') = target_layer (fst s)"
      and "output_dir (fst s') = output_dir (fst s)"
      and "openable (snd s') = openable (snd s)"
      and "log (snd s') = log (snd s)"
      and "\<And>p. p \<noteq> out_path (fst s) \<Longrightarrow> files (snd s') p = files (snd s) p"
      and "trace (snd s') = trace (snd s) @ evs"
      and "list_all (hook_event (out_path (fst s))) evs"
  shows "pass_frame s s'"
proof -
  have "\<exists>evs. trace (snd s') = trace (snd s) @ evs \<and> list_all (hook_event (out_path (fst s))) evs"
    using assms(7,8) by blast
  moreover have "\<forall>p. p \<noteq> out_path (fst s) \<longrightarrow> files (snd s') p = files (snd s) p"
    using assms(6) by blast
  ultimately show ?thesis
    unfolding pass_frame_def using assms(1-5) by (intro conjI)
qed

lemma pass_frame_session:
  assumes "pass_frame s s'"
  shows "cb_uid (fst s') = cb_uid (fst s)" and "target_layer (fst s') = target_layer (fst s)"
    and "output_dir (fst s') = output_dir (fst s)" and "openable (snd s') = openable (snd s)"
    and "log (snd s') = log (snd s)"
  using assms unfolding pass_frame_def by simp_all

lemma pass_frame_files:
  assumes "pass_frame s s'" and "p \<noteq> out_path (fst s)"
  shows "files (snd s') p = files (snd s) p"
proof -
  from assms(1) have "\<forall>p. p \<noteq> out_path (fst s) \<longrightarrow> files (snd s') p = files (snd s) p"
    unfolding pass_frame_def by (elim conjE)
  with assms(2) show ?thesis by blast
qed

lemma pass_frame_trace:
  assumes "pass_frame s s'"
  obtains evs where "trace (snd s') = trace (snd s) @ evs"
    and "list_all (hook_event (out_path (fst s))) evs"
proof -
  from assms have "\<exists>evs. trace (snd s') = trace (snd s) @ evs \<and>
      list_all (hook_event (out_path (fst s))) evs"
    unfolding pass_frame_def by (elim conjE)
  then show ?thesis using that by blast
qed

lemma pass_frame_refl: "pass_frame s s"
  by (rule pass_frameI[where evs = "[]"]) simp_all

lemma pass_frame_trans:
  assumes "pass_frame s1 s2" and "pass_frame s2 s3"
  shows "pass_frame s1 s3"
proof -
  note a = pass_frame_session[OF assms(1)] and b = pass_frame_session[OF assms(2)]
  have p: "out_path (fst s2) = out_path (fst s1)"
    using a(1,3) by (rule out_path_cong)
  from assms(1) obtain evs1 where
    e1: "trace (snd s2) = trace (snd s1) @ evs1" "list_all (hook_event (out_path (fst s1))) evs1"
    by (rule pass_frame_trace)
  from assms(2) obtain evs2 where
    e2: "trace (snd s3) = trace (snd s2) @ evs2" "list_all (hook_event (out_path (fst s1))) evs2"
    unfolding p[symmetric] by (rule pass_frame_trace)
  show ?thesis
  proof (rule pass_frameI[where evs = "evs1 @ evs2"])
    fix q assume q: "q \<noteq> out_path (fst s1)"
    then have "q \<noteq> out_path (fst s2)" by (simp add: p)
    from pass_frame_files[OF assms(2) this] pass_frame_files[OF assms(1) q]
    show "files (snd s3) q = files (snd s1) q" by simp
  qed (simp_all add: a b e1 e2)
qed

lemma data_ptr_of_frame:
  "pass_frame (cb, w) (case data_ptr_of t cb w of Inl (x, s) \<Rightarrow> s | Inr (cb1, w1, dat) \<Rightarrow> (cb1, w1))"
proof (cases "buffer_is_host t")
  case True
  then show ?thesis by (simp add: data_ptr_of_host pass_frame_refl)
next
  case False
  show ?thesis
  proof (cases "ggml_backend_tensor_get t (resize (data cb) (nbytes t)) 0 (nbytes t)")
    case None
    have "pass_frame (cb, w) (cb\<lparr>data := resize (data cb) (nbytes t)\<rparr>,
                              w\<lparr>trace := trace w @ [Resize (nbytes t)]\<rparr>)"
      by (rule pass_frameI[where evs = "[Resize (nbytes t)]"]) (simp_all add: out_path_def)
    then show ?thesis
      unfolding data_ptr_of_fetch[OF False] None by simp
  next
    case (Some fetched)
    have "pass_frame (cb, w) (cb\<lparr>data := fetched\<rparr>,
                              w\<lparr>trace := trace w @ [Resize (nbytes t), TensorGet (t_name t) (nbytes t)]\<rparr>)"
      by (rule pass_frameI[where evs = "[Resize (nbytes t), TensorGet (t_name t) (nbytes t)]"])
         (simp_all add: out_path_def)
    then show ?thesis
      unfolding data_ptr_of_fetch[OF False] Some by simp
  qed
qed

lemma save_data_npy_frame:
  assumes "save_data_npy dat n shape type path w = Inr w'" and that: "path = out_path cb"
  shows "pass_frame (cb, w) (cb, w')"
proof -
  from save_data_npy_Inr[OF assms(1)] obtain header where
    w': "w' = w\<lparr>files := (files w)(path \<mapsto>
                    accepted (write_room w path) (npy_bytes (pad_header header) dat n)),
                  trace := trace w @ [FileWrite path]\<rparr>"
    by blast
  show ?thesis
    by (rule pass_frameI[where evs = "[FileWrite path]"]) (simp_all add: w' that)
qed

lemma ggml_debug_frame: "pass_frame (cb, w) (state_of_hook (ggml_debug max_dims t ask (cb, w)))"
proof (cases "ask \<or> t_name t \<noteq> target_layer cb")
  case True
  then have "ggml_debug max_dims t ask (cb, w) = Inr (True, cb, w)"
    by (cases ask) (simp_all add: ggml_debug_ask ggml_debug_other)
  then show ?thesis
    by (simp add: state_of_hook_def pass_frame_refl)
next
  case False
  then have m: "t_name t = target_layer cb" and a: "\<not> ask" by simp_all
  have run: "ggml_debug max_dims t ask (cb, w) =
     (case data_ptr_of t cb w of
        Inl x \<Rightarrow> Inl x
      | Inr (cb1, w1, dat) \<Rightarrow>
          (case save_data_npy dat (nbytes t) (build_shape max_dims t) (t_type t) (out_path cb) w1 of
             Inl e \<Rightarrow> Inl (e, cb1, w1)
           | Inr w' \<Rightarrow> Inr (True, cb1, w')))"
    using a ggml_debug_match[OF m, of max_dims w] by simp
  note f0 = data_ptr_of_frame[of cb w t]
  show ?thesis
  proof (cases "data_ptr_of t cb w")
    case (Inl x)
    obtain e s where x: "x = (e, s)" by (cases x)
    have "state_of_hook (ggml_debug max_dims t ask (cb, w)) = s"
      by (simp add: run Inl x state_of_hook_def)
    with f0 show ?thesis by (simp add: Inl x)
  next
    case (Inr y)
    obtain cb1 w1 dat where d: "data_ptr_of t cb w = Inr (cb1, w1, dat)"
      using Inr by (cases y) simp
    have f1: "pass_frame (cb, w) (cb1, w1)" using f0 by (simp add: d)
    show ?thesis
    proof (cases "save_data_npy dat (nbytes t) (build_shape max_dims t) (t_type t) (out_path cb) w1")
      case (Inl e)
      have "state_of_hook (ggml_debug max_dims t ask (cb, w)) = (cb1, w1)"
        by (simp add: run d Inl state_of_hook_def)
      with f1 show ?thesis by simp
    next
      case save: (Inr w2)
      have p: "out_path cb1 = out_path cb"
        by (rule data_ptr_of_session(1)[OF d])
      have "pass_frame (cb1, w1) (cb1, w2)"
        by (rule save_data_npy_frame[OF save]) (simp add: p)
      with f1 have f2: "pass_frame (cb, w) (cb1, w2)" by (rule pass_frame_trans)
      have "state_of_hook (ggml_debug max_dims t ask (cb, w)) = (cb1, w2)"
        by (simp add: run d save state_of_hook_def)
      with f2 show ?thesis by simp
    qed
  qed
qed

lemma ggml_debug_Inr_True:
  assumes "ggml_debug max_dims t ask s = Inr (b, s')"
  shows "b"
proof -
  obtain cb w where s: "s = (cb, w)" by (cases s)
  show ?thesis
  proof (cases "ask \<or> t_name t \<noteq> target_layer cb")
    case True
    then have "ggml_debug max_dims t ask (cb, w) = Inr (True, cb, w)"
      by (cases ask) (simp_all add: ggml_debug_ask ggml_debug_other)
    then show ?thesis using assms by (simp add: s)
  next
    case False
    then have m: "t_name t = target_layer cb" and a: "ask = False" by simp_all
    show ?thesis
    proof (cases "data_ptr_of t cb w")
      case (Inl x)
      then show ?thesis
        using assms unfolding s a ggml_debug_match[OF m] by simp
    next
      case (Inr y)
      obtain cb1 w1 dat where d: "data_ptr_of t cb w = Inr (cb1, w1, dat)"
        using Inr by (cases y) simp
      show ?thesis
        using assms unfolding s a ggml_debug_match[OF m] d
        by (cases "save_data_npy dat (nbytes t) (build_shape max_dims t) (t_type t) (out_path cb) w1")
           simp_all
    qed
  qed
qed

lemma eval_tensors_frame:
  "pass_frame s (state_of (eval_tensors (ggml_debug max_dims) ts s))"
proof (induction ts arbitrary: s)
  case Nil
  show ?case by (simp add: state_of_def pass_frame_refl)
next
  case (Cons t ts)
  obtain cb w where s: "s = (cb, w)" by (cases s)
  have ask: "ggml_debug max_dims t True s = Inr (True, s)" by (rule ggml_debug_ask)
  show ?case
  proof (cases "ggml_debug max_dims t False s")
    case (Inl x)
    obtain e s1 where x: "x = (e, s1)" by (cases x)
    have "pass_frame s s1"
      using ggml_debug_frame[of cb w max_dims t False] Inl by (simp add: s x state_of_hook_def)
    then show ?thesis by (simp add: ask Inl x state_of_def)
  next
    case (Inr y)
    obtain b s1 where y: "y = (b, s1)" by (cases y)
    have b: "b" using Inr unfolding y by (rule ggml_debug_Inr_True)
    have f: "pass_frame s s1"
      using ggml_debug_frame[of cb w max_dims t False] Inr by (simp add: s y state_of_hook_def)
    have "pass_frame s1 (state_of (eval_tensors (ggml_debug max_dims) ts s1))"
      by (rule Cons.IH)
    with f have "pass_frame s (state_of (eval_tensors (ggml_debug max_dims) ts s1))"
      by (rule pass_frame_trans)
    then show ?thesis by (simp add: ask Inr y b)
  qed
qed

section \<open>Inference Driver\<close>

lemma hook_events_no_decode: "list_all (hook_event p) evs \<Longrightarrow> decode_calls evs = 0"
proof (induction evs)
  case Nil
  show ?case by (simp add: decode_calls_def)
next
  case (Cons ev evs)
  then show ?case by (cases ev) (simp_all add: decode_calls_def)
qed

lemma decode_calls_append: "decode_calls (xs @ ys) = decode_calls xs + decode_calls ys"
  by (simp add: decode_calls_def)

lemma eval_tensors_step:
  "eval_tensors (ggml_debug max_dims) (t # ts) s =
     (case ggml_debug max_dims t False s of
        Inl x \<Rightarrow> Inl x
      | Inr (b, s') \<Rightarrow> eval_tensors (ggml_debug max_dims) ts s')"
proof (cases "ggml_debug max_dims t False s")
  case (Inl x)
  then show ?thesis by (simp add: ggml_debug_ask)
next
  case (Inr y)
  obtain b s' where y: "y = (b, s')" by (cases y)
  have "b" using Inr unfolding y by (rule ggml_debug_Inr_True)
  then show ?thesis by (simp add: ggml_debug_ask Inr y)
qed

lemma eval_tensors_append:
  "eval_tensors (ggml_debug max_dims) (pre @ ts) s =
     (case eval_tensors (ggml_debug max_dims) pre s of
        Inl x \<Rightarrow> Inl x
      | Inr s' \<Rightarrow> eval_tensors (ggml_debug max_dims) ts s')"
proof (induction pre arbitrary: s)
  case Nil
  show ?case by simp
next
  case (Cons t pre)
  show ?case
  proof (cases "ggml_debug max_dims t False s")
    case (Inl x)
    then show ?thesis
      unfolding append_Cons eval_tensors_step by simp
  next
    case (Inr y)
    obtain b s' where y: "y = (b, s')" by (cases y)
    show ?thesis
      unfolding append_Cons eval_tensors_step Inr y by (simp add: Cons.IH)
  qed
qed

lemma descr_Inl: "ggml_type_to_numpy_descr type = Inl u \<Longrightarrow> u = UnsupportedType"
  by (cases type) simp_all

lemma save_data_npy_unsupported:
  "ggml_type_to_numpy_descr type = Inl u \<Longrightarrow>
   save_data_npy dat n shape type path w = Inl UnsupportedType"
  using descr_Inl[of type u] by (simp add: save_data_npy_def npy_header_def)

lemma save_data_npy_cannot_open:
  "ggml_type_to_numpy_descr type = Inr d \<Longrightarrow> \<not> openable w path \<Longrightarrow>
   save_data_npy dat n shape type path w = Inl (IOError path)"
  by (simp add: save_data_npy_def npy_header_def Let_def)

lemma llama_decode_eq:
  "llama_decode eng cb tokens (c, w) =
     (case eval_tensors cb (graph eng tokens) (c, w\<lparr>trace := trace w @ [Decode tokens]\<rparr>) of
        Inl x \<Rightarrow> Inl x
      | Inr s \<Rightarrow> Inr (decode_status eng tokens, s))"
  by (simp add: llama_decode_def)

lemma process_entry_empty:
  assumes "common_tokenize eng (question_text e) (add_bos eng) = []"
  shows "process_entry max_dims eng e (cb, w) =
     Inr (cb\<lparr>cb_uid := uid e\<rparr>,
          w\<lparr>log := log w @ [''Inference failed for uid '' @ to_string (unat (uid e)) @ ''\<newline>'']\<rparr>)"
  using assms by (simp add: process_entry_def run_one_def LOG_ERR_def)

lemma process_entry_decode:
  assumes "common_tokenize eng (question_text e) (add_bos eng) = tokens" and "tokens \<noteq> []"
  shows "process_entry max_dims eng e (cb, w) =
     (case llama_decode eng (ggml_debug max_dims) tokens (cb\<lparr>cb_uid := uid e\<rparr>, w) of
        Inl x \<Rightarrow> Inl x
      | Inr (rc, s) \<Rightarrow>
          if rc \<noteq> 0
          then Inr (LOG_ERR (''Inference failed for uid '' @ to_string (unat (uid e)) @ ''\<newline>'')
                     (LOG_ERR ''run_one : failed to eval\<newline>'' s))
          else Inr s)"
  using assms
  by (cases "llama_decode eng (ggml_debug max_dims) tokens (cb\<lparr>cb_uid := uid e\<rparr>, w)")
     (auto simp: process_entry_def run_one_def)

lemma llama_decode_frame:
  assumes "llama_decode eng (ggml_debug max_dims) tokens (c, w) = Inr (rc, c', w')"
  shows "pass_frame (c, w\<lparr>trace := trace w @ [Decode tokens]\<rparr>) (c', w')"
proof -
  let ?s = "(c, w\<lparr>trace := trace w @ [Decode tokens]\<rparr>)"
  have "eval_tensors (ggml_debug max_dims) (graph eng tokens) ?s = Inr (c', w')"
    using assms unfolding llama_decode_eq
    by (cases "eval_tensors (ggml_debug max_dims) (graph eng tokens) ?s") simp_all
  then have "state_of (eval_tensors (ggml_debug max_dims) (graph eng tokens) ?s) = (c', w')"
    by (simp add: state_of_def)
  with eval_tensors_frame[of ?s max_dims "graph eng tokens"] show ?thesis by simp
qed

text \<open>
  C8. A record whose text tokenizes to the empty sequence is logged and skipped without
  a call of \<open>llama_decode\<close>, and the loop goes on with the next record; so does a record
  for which \<open>llama_decode\<close> returns a nonzero status, after exactly one call of it and
  two log lines.
\<close>

theorem driver_skips_failed_record:
  assumes "tokens = common_tokenize eng (question_text e) (add_bos eng)"
  shows "(tokens = [] \<longrightarrow>
            main_loop max_dims eng (e # es) (cb, w) =
              main_loop max_dims eng es
                (cb\<lparr>cb_uid := uid e\<rparr>,
                 w\<lparr>log := log w @ [''Inference failed for uid '' @ to_string (unat (uid e)) @ ''\<newline>'']\<rparr>))
       \<and> (\<forall>rc cb' w'.
            tokens \<noteq> [] \<and> rc \<noteq> 0 \<and>
            llama_decode eng (ggml_debug max_dims) tokens (cb\<lparr>cb_uid := uid e\<rparr>, w) = Inr (rc, cb', w') \<longrightarrow>
            main_loop max_dims eng (e # es) (cb, w) =
              main_loop max_dims eng es
                (cb', w'\<lparr>log := log w' @ [''run_one : failed to eval\<newline>'',
                     ''Inference failed for uid '' @ to_string (unat (uid e)) @ ''\<newline>'']\<rparr>)
            \<and> decode_calls (trace w') = Suc (decode_calls (trace w)))"
proof (intro conjI impI allI)
  assume "tokens = []"
  then have "common_tokenize eng (question_text e) (add_bos eng) = []"
    using assms by simp
  from process_entry_empty[OF this] show "main_loop max_dims eng (e # es) (cb, w) =
      main_loop max_dims eng es
        (cb\<lparr>cb_uid := uid e\<rparr>,
         w\<lparr>log := log w @ [''Inference failed for uid '' @ to_string (unat (uid e)) @ ''\<newline>'']\<rparr>)"
    by simp
next
  fix rc cb' w'
  assume h: "tokens \<noteq> [] \<and> rc \<noteq> 0 \<and>
    llama_decode eng (ggml_debug max_dims) tokens (cb\<lparr>cb_uid := uid e\<rparr>, w) = Inr (rc, cb', w')"
  then have ne: "tokens \<noteq> []" and rc: "rc \<noteq> 0"
    and d: "llama_decode eng (ggml_debug max_dims) tokens (cb\<lparr>cb_uid := uid e\<rparr>, w) = Inr (rc, cb', w')"
    by simp_all
  have "process_entry max_dims eng e (cb, w) =
      Inr (cb', w'\<lparr>log := log w' @ [''run_one : failed to eval\<newline>'',
                     ''Inference failed for uid '' @ to_string (unat (uid e)) @ ''\<newline>'']\<rparr>)"
    unfolding process_entry_decode[OF assms[symmetric] ne] d using rc by (simp add: LOG_ERR_def)
  then show "main_loop max_dims eng (e # es) (cb, w) =
      main_loop max_dims eng es
        (cb', w'\<lparr>log := log w' @ [''run_one : failed to eval\<newline>'',
             ''Inference failed for uid '' @ to_string (unat (uid e)) @ ''\<newline>'']\<rparr>)"
    by simp
  from llama_decode_frame[OF d] obtain evs where
    "trace w' = (trace w @ [Decode tokens]) @ evs" and
    "list_all (hook_event (out_path (cb\<lparr>cb_uid := uid e\<rparr>))) evs"
    by (rule pass_frame_trace) simp
  then show "decode_calls (trace w') = Suc (decode_calls (trace w))"
    using hook_events_no_decode[of _ evs] by (simp add: decode_calls_append) (simp add: decode_calls_def)
qed

lemma pass_example:
  assumes "target_layer cb = ''l_out-15''"
  shows "eval_tensors (ggml_debug 4) [tensor_other, tensor_host] (cb, w) =
     (if openable w (out_path cb)
      then Inr (cb, w\<lparr>files := (files w)(out_path cb \<mapsto>
                          accepted (write_room w (out_path cb)) image_2x3x1x1),
                       trace := trace w @ [FileWrite (out_path cb)]\<rparr>)
      else Inl (IOError (out_path cb), cb, w))"
proof -
  have o: "ggml_debug 4 tensor_other False (cb, w) = Inr (True, cb, w)"
    using assms by (simp add: ggml_debug_other tensor_other_def tensor_host_def)
  show ?thesis
    unfolding eval_tensors_step o by (simp add: hook_example_tensor[OF assms])
qed

lemma engine0_tokens:
  "common_tokenize engine0 (question_text rec1) (add_bos engine0) = [104, 105]"
  "common_tokenize engine0 (question_text rec2) (add_bos engine0) = []"
  "common_tokenize engine0 (question_text rec3) (add_bos engine0) = [121, 111]"
  "common_tokenize engine0 (question_text rec4) (add_bos engine0) = [104, 101, 108, 108, 111]"
  by (simp_all add: engine0_def rec1_def rec2_def rec3_def rec4_def)

lemma engine0_graph:
  "graph engine0 [104, 105] = [tensor_other, tensor_host]"
  "graph engine0 [121, 111] = [tensor_other, tensor_host]"
  "graph engine0 [104, 101, 108, 108, 111] = []"
  "decode_status engine0 [104, 105] = 0"
  "decode_status engine0 [121, 111] = 0"
  "decode_status engine0 [104, 101, 108, 108, 111] = 1"
  by (simp_all add: engine0_def)

lemma out_path_main:
  "out_path (session_main\<lparr>cb_uid := 1\<rparr>) = locked_path"
  "out_path (session_main\<lparr>cb_uid := 3\<rparr>) = ''/home/u/310-solution/npy_outputs//3.npy''"
  by (simp_all add: out_path_def session_main_def locked_path_def to_string.simps digit_char_eval)

lemma main_run_session:
  "main_run max_dims eng ''/home/u'' entries w = main_loop max_dims eng entries (session_main, w)"
  by (simp add: main_run_def session_main_def)

lemma process_rec1_world0:
  "process_entry 4 engine0 rec1 (session_main, world0) =
     Inl (IOError locked_path, session_main\<lparr>cb_uid := 1\<rparr>, world0\<lparr>trace := [Decode [104, 105]]\<rparr>)"
proof -
  have t: "target_layer (session_main\<lparr>cb_uid := uid rec1\<rparr>) = ''l_out-15''"
    by (simp add: session_main_def)
  have u: "uid rec1 = 1" by (simp add: rec1_def)
  have ne: "[104, 105 :: llama_token] \<noteq> []" by simp
  show ?thesis
    unfolding process_entry_decode[OF engine0_tokens(1) ne] llama_decode_eq engine0_graph
      pass_example[OF t]
    by (simp add: u out_path_main) (simp add: world0_def)
qed

lemma process_rec3:
  assumes "openable w ''/home/u/310-solution/npy_outputs//3.npy''"
      and "write_room w ''/home/u/310-solution/npy_outputs//3.npy'' = None"
  shows "process_entry 4 engine0 rec3 (session_main\<lparr>cb_uid := k\<rparr>, w) =
     Inr (session_main\<lparr>cb_uid := 3\<rparr>,
          w\<lparr>files := (files w)(''/home/u/310-solution/npy_outputs//3.npy'' \<mapsto> image_2x3x1x1),
            trace := trace w @ [Decode [121, 111],
                                FileWrite ''/home/u/310-solution/npy_outputs//3.npy'']\<rparr>)"
proof -
  have t: "target_layer (session_main\<lparr>cb_uid := k, cb_uid := uid rec3\<rparr>) = ''l_out-15''"
    by (simp add: session_main_def)
  have u: "uid rec3 = 3" by (simp add: rec3_def)
  have ne: "[121, 111 :: llama_token] \<noteq> []" by simp
  show ?thesis
    unfolding process_entry_decode[OF engine0_tokens(3) ne] llama_decode_eq engine0_graph
      pass_example[OF t]
    using assms by (simp add: u out_path_main accepted_def)
qed

lemma world0_openable_3: "openable world0 ''/home/u/310-solution/npy_outputs//3.npy''"
  by (simp add: world0_def locked_path_def)

lemma world0_no_limit: "write_room world0 p = None"
  by (simp add: world0_def)

theorem driver_skips_failed_record_witness:
  "main_loop 4 engine0 [rec2] (session0, world0) =
     Inr (session0\<lparr>cb_uid := 2\<rparr>, world0\<lparr>log := [''Inference failed for uid 2\<newline>'']\<rparr>)
   \<and> main_loop 4 engine0 [rec4] (session0, world0) =
     Inr (session0\<lparr>cb_uid := 4\<rparr>,
          world0\<lparr>log := [''run_one : failed to eval\<newline>'', ''Inference failed for uid 4\<newline>''],
                  trace := [Decode [104, 101, 108, 108, 111]]\<rparr>)
   \<and> decode_calls [Decode [104, 101, 108, 108, 111]] = Suc (decode_calls [])"
proof -
  have s2: "to_string (unat (uid rec2)) = ''2''" and s4: "to_string (unat (uid rec4)) = ''4''"
    by (simp_all add: rec2_def rec4_def to_string.simps digit_char_eval)
  have w0: "log world0 = []" "trace world0 = []"
    by (simp_all add: world0_def)
  from driver_skips_failed_record[OF engine0_tokens(2)[symmetric], of 4 "[]" session0 world0,
      THEN conjunct1]
  have one: "main_loop 4 engine0 [rec2] (session0, world0) =
     Inr (session0\<lparr>cb_uid := 2\<rparr>, world0\<lparr>log := [''Inference failed for uid 2\<newline>'']\<rparr>)"
    by (simp add: s2 w0) (simp add: rec2_def)
  have d: "llama_decode engine0 (ggml_debug 4) [104, 101, 108, 108, 111]
             (session0\<lparr>cb_uid := uid rec4\<rparr>, world0) =
           Inr (1, session0\<lparr>cb_uid := 4\<rparr>, world0\<lparr>trace := [Decode [104, 101, 108, 108, 111]]\<rparr>)"
    unfolding llama_decode_eq engine0_graph by (simp add: w0 rec4_def)
  from driver_skips_failed_record[OF engine0_tokens(4)[symmetric], of 4 "[]" session0 world0,
      THEN conjunct2]
  have "\<forall>rc cb' w'.
        [104, 101, 108, 108, 111 :: llama_token] \<noteq> [] \<and> rc \<noteq> 0 \<and>
        llama_decode engine0 (ggml_debug 4) [104, 101, 108, 108, 111]
          (session0\<lparr>cb_uid := uid rec4\<rparr>, world0) = Inr (rc, cb', w') \<longrightarrow>
        main_loop 4 engine0 [rec4] (session0, world0) =
          main_loop 4 engine0 []
            (cb', w'\<lparr>log := log w' @ [''run_one : failed to eval\<newline>'',
                 ''Inference failed for uid '' @ to_string (unat (uid rec4)) @ ''\<newline>'']\<rparr>)
        \<and> decode_calls (trace w') = Suc (decode_calls (trace world0))"
    .
  from this[rule_format, of 1 "session0\<lparr>cb_uid := 4\<rparr>"
      "world0\<lparr>trace := [Decode [104, 101, 108, 108, 111]]\<rparr>"] d
  have two: "main_loop 4 engine0 [rec4] (session0, world0) =
     Inr (session0\<lparr>cb_uid := 4\<rparr>,
          world0\<lparr>log := [''run_one : failed to eval\<newline>'', ''Inference failed for uid 4\<newline>''],
                  trace := [Decode [104, 101, 108, 108, 111]]\<rparr>)"
    and three: "decode_calls [Decode [104, 101, 108, 108, 111]] = Suc (decode_calls [])"
    by (simp_all add: s4 w0)
  from one two three show ?thesis by (intro conjI)
qed

section \<open>Failures of the write step\<close>

text \<open>
  C4, as the code has it. When the write step of a matching capture fails, by an
  element type outside the table or by a file that cannot be opened, the exception leaves
  the hook, the engine's pass, \<open>llama_decode\<close>, \<open>run_one\<close> and the loop of the driver,
  which has no handler: the run ends with this exception and the remaining records are
  not processed.
\<close>

theorem write_failure_ends_run:
  assumes "tokens = common_tokenize eng (question_text e) (add_bos eng)"
      and "tokens \<noteq> []"
      and "graph eng tokens = pre @ t # post"
      and "eval_tensors (ggml_debug max_dims) pre
             (cb\<lparr>cb_uid := uid e\<rparr>, w\<lparr>trace := trace w @ [Decode tokens]\<rparr>) = Inr (cb1, w1)"
      and "t_name t = target_layer cb1"
      and "data_ptr_of t cb1 w1 = Inr (cb2, w2, dat)"
      and "(\<exists>u. ggml_type_to_numpy_descr (t_type t) = Inl u) \<or> \<not> openable w2 (out_path cb1)"
      and "x = (case ggml_type_to_numpy_descr (t_type t) of
                  Inl u \<Rightarrow> UnsupportedType | Inr d \<Rightarrow> IOError (out_path cb1))"
  shows "ggml_debug max_dims t False (cb1, w1) = Inl (x, cb2, w2) \<and>
         llama_decode eng (ggml_debug max_dims) tokens (cb\<lparr>cb_uid := uid e\<rparr>, w) = Inl (x, cb2, w2) \<and>
         run_one eng (ggml_debug max_dims) (question_text e) (cb\<lparr>cb_uid := uid e\<rparr>, w) = Inl (x, cb2, w2) \<and>
         main_loop max_dims eng (e # es) (cb, w) = Inl (x, cb2, w2)"
proof -
  have save: "save_data_npy dat (nbytes t) (build_shape max_dims t) (t_type t) (out_path cb1) w2 = Inl x"
  proof (cases "ggml_type_to_numpy_descr (t_type t)")
    case (Inl u)
    from save_data_npy_unsupported[OF this] show ?thesis
      by (simp add: assms(8) Inl)
  next
    case (Inr d)
    then have "\<not> openable w2 (out_path cb1)" using assms(7) by simp
    from save_data_npy_cannot_open[OF Inr this] show ?thesis
      by (simp add: assms(8) Inr)
  qed
  have hook: "ggml_debug max_dims t False (cb1, w1) = Inl (x, cb2, w2)"
    unfolding ggml_debug_match[OF assms(5)] assms(6) by (simp add: save)
  have step: "eval_tensors (ggml_debug max_dims) (t # post) (cb1, w1) = Inl (x, cb2, w2)"
    unfolding eval_tensors_step hook by simp
  have pass: "eval_tensors (ggml_debug max_dims) (graph eng tokens)
                (cb\<lparr>cb_uid := uid e\<rparr>, w\<lparr>trace := trace w @ [Decode tokens]\<rparr>) = Inl (x, cb2, w2)"
    unfolding assms(3) eval_tensors_append assms(4) sum.case by (rule step)
  have dec: "llama_decode eng (ggml_debug max_dims) tokens (cb\<lparr>cb_uid := uid e\<rparr>, w) = Inl (x, cb2, w2)"
    unfolding llama_decode_eq pass by simp
  have run: "run_one eng (ggml_debug max_dims) (question_text e) (cb\<lparr>cb_uid := uid e\<rparr>, w) = Inl (x, cb2, w2)"
    using assms(1,2) dec by (simp add: run_one_def)
  have "process_entry max_dims eng e (cb, w) = Inl (x, cb2, w2)"
    unfolding process_entry_decode[OF assms(1)[symmetric] assms(2)] dec by simp
  then have "main_loop max_dims eng (e # es) (cb, w) = Inl (x, cb2, w2)"
    by simp
  with hook dec run show ?thesis by (intro conjI)
qed

theorem write_failure_ends_run_witness:
  "main_loop 4 engine0 [rec1, rec3, rec2] (session_main, world0) =
     Inl (runtime_error ''Cannot open file: /home/u/310-solution/npy_outputs//1.npy'',
          session_main\<lparr>cb_uid := 1\<rparr>, world0\<lparr>trace := [Decode [104, 105]]\<rparr>)"
proof -
  have ne: "[104, 105 :: llama_token] \<noteq> []" by simp
  have g: "graph engine0 [104, 105] = [tensor_other] @ tensor_host # []"
    by (simp add: engine0_graph)
  have u: "uid rec1 = 1" by (simp add: rec1_def)
  have pre: "eval_tensors (ggml_debug 4) [tensor_other]
      (session_main\<lparr>cb_uid := uid rec1\<rparr>, world0\<lparr>trace := trace world0 @ [Decode [104, 105]]\<rparr>) =
      Inr (session_main\<lparr>cb_uid := 1\<rparr>, world0\<lparr>trace := [Decode [104, 105]]\<rparr>)"
    unfolding eval_tensors_step
    by (simp add: ggml_debug_other tensor_other_def tensor_host_def session_main_def u)
       (simp add: world0_def)
  have n: "t_name tensor_host = target_layer (session_main\<lparr>cb_uid := 1\<rparr>)"
    by (simp add: tensor_host_def session_main_def)
  have d: "data_ptr_of tensor_host (session_main\<lparr>cb_uid := 1\<rparr>) (world0\<lparr>trace := [Decode [104, 105]]\<rparr>) =
      Inr (session_main\<lparr>cb_uid := 1\<rparr>, world0\<lparr>trace := [Decode [104, 105]]\<rparr>, floats_2x3)"
    by (simp add: data_ptr_of_host tensor_host_def)
  have f: "(\<exists>u. ggml_type_to_numpy_descr (t_type tensor_host) = Inl u) \<or>
      \<not> openable (world0\<lparr>trace := [Decode [104, 105]]\<rparr>) (out_path (session_main\<lparr>cb_uid := 1\<rparr>))"
    by (simp add: out_path_main world0_def)
  have x: "runtime_error ''Cannot open file: /home/u/310-solution/npy_outputs//1.npy'' =
      (case ggml_type_to_numpy_descr (t_type tensor_host) of
         Inl u \<Rightarrow> UnsupportedType | Inr d \<Rightarrow> IOError (out_path (session_main\<lparr>cb_uid := 1\<rparr>)))"
    by (simp add: tensor_host_def out_path_main IOError_def locked_path_def)
  from write_failure_ends_run[OF engine0_tokens(1)[symmetric] ne g pre n d f x, of "[rec3, rec2]"]
  show ?thesis by (rule conjunct2[THEN conjunct2, THEN conjunct2])
qed

text \<open>
  C4 as stated fails: the first record's capture cannot open its file, the run ends with
  the exception, and the file of the third record, which the same run without the first
  record writes, is never written.
\<close>

theorem driver_does_not_catch_counterexample:
  "main_run 4 engine0 ''/home/u'' [rec1, rec3] world0 =
     Inl (runtime_error ''Cannot open file: /home/u/310-solution/npy_outputs//1.npy'',
          session_main\<lparr>cb_uid := 1\<rparr>, world0\<lparr>trace := [Decode [104, 105]]\<rparr>)
   \<and> files (world0\<lparr>trace := [Decode [104, 105]]\<rparr>) ''/home/u/310-solution/npy_outputs//3.npy'' = None
   \<and> main_run 4 engine0 ''/home/u'' [rec3] world0 =
     Inr (session_main\<lparr>cb_uid := 3\<rparr>,
          world0\<lparr>files := (files world0)(''/home/u/310-solution/npy_outputs//3.npy'' \<mapsto> image_2x3x1x1),
                  trace := [Decode [121, 111], FileWrite ''/home/u/310-solution/npy_outputs//3.npy'']\<rparr>)"
proof -
  have a: "main_run 4 engine0 ''/home/u'' [rec1, rec3] world0 =
     Inl (runtime_error ''Cannot open file: /home/u/310-solution/npy_outputs//1.npy'',
          session_main\<lparr>cb_uid := 1\<rparr>, world0\<lparr>trace := [Decode [104, 105]]\<rparr>)"
    unfolding main_run_session by (simp add: process_rec1_world0 IOError_def locked_path_def)
  have b: "files (world0\<lparr>trace := [Decode [104, 105]]\<rparr>) ''/home/u/310-solution/npy_outputs//3.npy'' = None"
    by (simp add: world0_def)
  have s: "session_main = session_main\<lparr>cb_uid := 0\<rparr>"
    by (simp add: session_main_def)
  have "process_entry 4 engine0 rec3 (session_main, world0) =
     Inr (session_main\<lparr>cb_uid := 3\<rparr>,
          world0\<lparr>files := (files world0)(''/home/u/310-solution/npy_outputs//3.npy'' \<mapsto> image_2x3x1x1),
                  trace := [Decode [121, 111], FileWrite ''/home/u/310-solution/npy_outputs//3.npy'']\<rparr>)"
    using process_rec3[OF world0_openable_3 world0_no_limit, of 0] s by (simp add: world0_def)
  then have c: "main_run 4 engine0 ''/home/u'' [rec3] world0 =
     Inr (session_main\<lparr>cb_uid := 3\<rparr>,
          world0\<lparr>files := (files world0)(''/home/u/310-solution/npy_outputs//3.npy'' \<mapsto> image_2x3x1x1),
                  trace := [Decode [121, 111], FileWrite ''/home/u/310-solution/npy_outputs//3.npy'']\<rparr>)"
    unfolding main_run_session by simp
  from a b c show ?thesis by (intro conjI)
qed

section \<open>One record, one file\<close>

lemma out_path_inj:
  assumes "dir @ ''/'' @ to_string (unat (u :: uint32_t)) @ ''.npy'' =
           dir @ ''/'' @ to_string (unat (v :: uint32_t)) @ ''.npy''"
  shows "u = v"
proof -
  from assms have "to_string (unat u) = to_string (unat v)" by simp
  then have "unat u = unat v" by (rule to_string_inj)
  then show ?thesis by (simp add: word_unat_eq_iff)
qed

lemma hook_event_FileWrite:
  "list_all (hook_event p) evs \<Longrightarrow> FileWrite q \<in> set evs \<Longrightarrow> q = p"
  by (induction evs) auto

lemma process_entry_state:
  assumes "tokens = common_tokenize eng (question_text e) (add_bos eng)"
      and s2_def: "s2 = (if tokens = [] then (cb\<lparr>cb_uid := uid e\<rparr>, w)
                  else state_of (eval_tensors (ggml_debug max_dims) (graph eng tokens)
                         (cb\<lparr>cb_uid := uid e\<rparr>, w\<lparr>trace := trace w @ [Decode tokens]\<rparr>)))"
  shows "fst (state_of (process_entry max_dims eng e (cb, w))) = fst s2 \<and>
         files (snd (state_of (process_entry max_dims eng e (cb, w)))) = files (snd s2) \<and>
         trace (snd (state_of (process_entry max_dims eng e (cb, w)))) = trace (snd s2)"
proof (cases "tokens = []")
  case True
  then have "common_tokenize eng (question_text e) (add_bos eng) = []"
    using assms(1) by simp
  from process_entry_empty[OF this] show ?thesis
    by (simp add: s2_def True state_of_def)
next
  case False
  let ?r = "eval_tensors (ggml_debug max_dims) (graph eng tokens)
              (cb\<lparr>cb_uid := uid e\<rparr>, w\<lparr>trace := trace w @ [Decode tokens]\<rparr>)"
  have s2: "s2 = state_of ?r" by (simp add: s2_def False)
  show ?thesis
  proof (cases ?r)
    case (Inl x)
    obtain ex s where x: "x = (ex, s)" by (cases x)
    show ?thesis
      unfolding process_entry_decode[OF assms(1)[symmetric] False] llama_decode_eq s2 Inl x
      by (simp add: state_of_def)
  next
    case (Inr s)
    obtain c v where s: "s = (c, v)" by (cases s)
    show ?thesis
      unfolding process_entry_decode[OF assms(1)[symmetric] False] llama_decode_eq s2 Inr s
      by (simp add: state_of_def LOG_ERR_def)
  qed
qed

lemma process_entry_frame:
  assumes "state_of (process_entry max_dims eng e (cb, w)) = (cb', w')"
  shows "cb_uid cb' = uid e \<and> output_dir cb' = output_dir cb \<and>
         (\<forall>p. p \<noteq> out_path (cb\<lparr>cb_uid := uid e\<rparr>) \<longrightarrow> files w' p = files w p) \<and>
         (\<exists>evs. trace w' = trace w @ evs \<and>
                (\<forall>p. FileWrite p \<in> set evs \<longrightarrow> p = out_path (cb\<lparr>cb_uid := uid e\<rparr>)))"
proof -
  define tokens where "tokens = common_tokenize eng (question_text e) (add_bos eng)"
  let ?s1 = "(cb\<lparr>cb_uid := uid e\<rparr>, w\<lparr>trace := trace w @ [Decode tokens]\<rparr>)"
  let ?P = "out_path (cb\<lparr>cb_uid := uid e\<rparr>)"
  define s2 where "s2 = (if tokens = [] then (cb\<lparr>cb_uid := uid e\<rparr>, w)
                  else state_of (eval_tensors (ggml_debug max_dims) (graph eng tokens) ?s1))"
  from process_entry_state[OF tokens_def s2_def]
  have st: "cb' = fst s2" "files w' = files (snd s2)" "trace w' = trace (snd s2)"
    unfolding assms by simp_all
  show ?thesis
  proof (cases "tokens = []")
    case True
    then have "s2 = (cb\<lparr>cb_uid := uid e\<rparr>, w)" by (simp add: s2_def)
    then show ?thesis by (simp add: st)
  next
    case False
    then have s2: "s2 = state_of (eval_tensors (ggml_debug max_dims) (graph eng tokens) ?s1)"
      by (simp add: s2_def)
    have fr: "pass_frame ?s1 s2"
      unfolding s2 by (rule eval_tensors_frame)
    from fr obtain evs where
      evs: "trace (snd s2) = trace (snd ?s1) @ evs" "list_all (hook_event (out_path (fst ?s1))) evs"
      by (rule pass_frame_trace)
    have a: "cb_uid cb' = uid e" "output_dir cb' = output_dir cb"
      using pass_frame_session(1,3)[OF fr] by (simp_all add: st)
    have b: "\<forall>p. p \<noteq> ?P \<longrightarrow> files w' p = files w p"
      using pass_frame_files[OF fr] by (simp add: st)
    have "trace w' = trace w @ (Decode tokens # evs)"
      using evs(1) by (simp add: st)
    moreover have "\<forall>p. FileWrite p \<in> set (Decode tokens # evs) \<longrightarrow> p = ?P"
      using hook_event_FileWrite[OF evs(2)] by simp
    ultimately have c: "\<exists>evs. trace w' = trace w @ evs \<and> (\<forall>p. FileWrite p \<in> set evs \<longrightarrow> p = ?P)"
      by blast
    from a b c show ?thesis by (intro conjI)
  qed
qed

text \<open>
  C10. While a record is processed the session's \<open>uid\<close> is the record's: after every
  prefix of the pass, and in the state the processing ends in, by return or by exception.
  Every file changed or written in the meantime is \<open>output_dir/<uid>.npy\<close> of this
  record, so the file of any other uid is left as it was.
\<close>

theorem record_pass_uses_own_uid:
  assumes "tokens = common_tokenize eng (question_text e) (add_bos eng)"
      and "state_of (process_entry max_dims eng e (cb, w)) = (cb', w')"
  shows "cb_uid cb' = uid e \<and>
     (\<forall>k. cb_uid (fst (state_of (eval_tensors (ggml_debug max_dims) (take k (graph eng tokens))
              (cb\<lparr>cb_uid := uid e\<rparr>, w\<lparr>trace := trace w @ [Decode tokens]\<rparr>)))) = uid e) \<and>
     (\<forall>p. files w' p \<noteq> files w p \<or> FileWrite p \<in> set (drop (length (trace w)) (trace w')) \<longrightarrow>
          p = output_dir cb @ ''/'' @ to_string (unat (uid e)) @ ''.npy'') \<and>
     (\<forall>u. u \<noteq> uid e \<longrightarrow>
          files w' (output_dir cb @ ''/'' @ to_string (unat u) @ ''.npy'') =
          files w (output_dir cb @ ''/'' @ to_string (unat u) @ ''.npy''))"
proof -
  let ?P = "output_dir cb @ ''/'' @ to_string (unat (uid e)) @ ''.npy''"
  have P: "out_path (cb\<lparr>cb_uid := uid e\<rparr>) = ?P"
    by (simp add: out_path_def)
  note fr = process_entry_frame[OF assms(2), unfolded P]
  from fr have a: "cb_uid cb' = uid e"
    by (rule conjunct1)
  from fr have b: "\<forall>p. p \<noteq> ?P \<longrightarrow> files w' p = files w p"
    by (elim conjE)
  from fr have "\<exists>evs. trace w' = trace w @ evs \<and> (\<forall>p. FileWrite p \<in> set evs \<longrightarrow> p = ?P)"
    by (elim conjE)
  then obtain evs where
    c: "trace w' = trace w @ evs" "\<forall>p. FileWrite p \<in> set evs \<longrightarrow> p = ?P"
    by (elim exE conjE)
  have k: "\<forall>k. cb_uid (fst (state_of (eval_tensors (ggml_debug max_dims) (take k (graph eng tokens))
              (cb\<lparr>cb_uid := uid e\<rparr>, w\<lparr>trace := trace w @ [Decode tokens]\<rparr>)))) = uid e"
  proof
    fix k
    show "cb_uid (fst (state_of (eval_tensors (ggml_debug max_dims) (take k (graph eng tokens))
              (cb\<lparr>cb_uid := uid e\<rparr>, w\<lparr>trace := trace w @ [Decode tokens]\<rparr>)))) = uid e"
      using pass_frame_session(1)[OF eval_tensors_frame[of
          "(cb\<lparr>cb_uid := uid e\<rparr>, w\<lparr>trace := trace w @ [Decode tokens]\<rparr>)" max_dims
          "take k (graph eng tokens)"]]
      by simp
  qed
  have d: "\<forall>p. files w' p \<noteq> files w p \<or> FileWrite p \<in> set (drop (length (trace w)) (trace w')) \<longrightarrow> p = ?P"
  proof (intro allI impI)
    fix p
    assume h: "files w' p \<noteq> files w p \<or> FileWrite p \<in> set (drop (length (trace w)) (trace w'))"
    show "p = ?P"
    proof (rule ccontr)
      assume n: "p \<noteq> ?P"
      from b[rule_format, OF n] have "files w' p = files w p" .
      with h have "FileWrite p \<in> set (drop (length (trace w)) (trace w'))" by simp
      then have "FileWrite p \<in> set evs" by (simp add: c(1))
      from c(2)[rule_format, OF this] have "p = ?P" .
      with n show False by simp
    qed
  qed
  have u: "\<forall>u. u \<noteq> uid e \<longrightarrow>
          files w' (output_dir cb @ ''/'' @ to_string (unat u) @ ''.npy'') =
          files w (output_dir cb @ ''/'' @ to_string (unat u) @ ''.npy'')"
  proof (intro allI impI)
    fix u assume that: "u \<noteq> uid e"
    have "output_dir cb @ ''/'' @ to_string (unat u) @ ''.npy'' \<noteq> ?P"
    proof
      assume "output_dir cb @ ''/'' @ to_string (unat u) @ ''.npy'' = ?P"
      then have "u = uid e" by (rule out_path_inj)
      with that show False by simp
    qed
    from b[rule_format, OF this]
    show "files w' (output_dir cb @ ''/'' @ to_string (unat u) @ ''.npy'') =
          files w (output_dir cb @ ''/'' @ to_string (unat u) @ ''.npy'')" .
  qed
  from a k d u show ?thesis by (intro conjI)
qed

theorem record_pass_uses_own_uid_witness:
  "cb_uid (fst (state_of (process_entry 4 engine0 rec3 (session_main, world0)))) = 3 \<and>
   files (snd (state_of (process_entry 4 engine0 rec3 (session_main, world0))))
       ''/home/u/310-solution/npy_outputs//1.npy'' =
     files world0 ''/home/u/310-solution/npy_outputs//1.npy'' \<and>
   files (snd (state_of (process_entry 4 engine0 rec3 (session_main, world0))))
       ''/home/u/310-solution/npy_outputs//3.npy'' = Some image_2x3x1x1"
proof -
  obtain cb' w' where s: "state_of (process_entry 4 engine0 rec3 (session_main, world0)) = (cb', w')"
    by (cases "state_of (process_entry 4 engine0 rec3 (session_main, world0))")
  have u: "uid rec3 = 3" "(1 :: uint32_t) \<noteq> uid rec3" by (simp_all add: rec3_def)
  have p1: "output_dir session_main @ ''/'' @ to_string (unat (1 :: uint32_t)) @ ''.npy'' =
            ''/home/u/310-solution/npy_outputs//1.npy''"
    by (simp add: session_main_def to_string.simps digit_char_eval)
  note r = record_pass_uses_own_uid[OF engine0_tokens(3)[symmetric] s]
  have a: "cb_uid cb' = uid rec3"
    by (rule r[THEN conjunct1])
  have b: "\<forall>u. u \<noteq> uid rec3 \<longrightarrow>
          files w' (output_dir session_main @ ''/'' @ to_string (unat u) @ ''.npy'') =
          files world0 (output_dir session_main @ ''/'' @ to_string (unat u) @ ''.npy'')"
    by (rule r[THEN conjunct2, THEN conjunct2, THEN conjunct2])
  have b1: "files w' ''/home/u/310-solution/npy_outputs//1.npy'' =
      files world0 ''/home/u/310-solution/npy_outputs//1.npy''"
    using b[rule_format, OF u(2)] unfolding p1 .
  have s0: "session_main = session_main\<lparr>cb_uid := 0\<rparr>"
    by (simp add: session_main_def)
  have "process_entry 4 engine0 rec3 (session_main, world0) =
     Inr (session_main\<lparr>cb_uid := 3\<rparr>,
          world0\<lparr>files := (files world0)(''/home/u/310-solution/npy_outputs//3.npy'' \<mapsto> image_2x3x1x1),
            trace := trace world0 @ [Decode [121, 111],
                                FileWrite ''/home/u/310-solution/npy_outputs//3.npy'']\<rparr>)"
    using process_rec3[OF world0_openable_3 world0_no_limit, of 0] s0 by simp
  with s have "(cb', w') = (session_main\<lparr>cb_uid := 3\<rparr>,
          world0\<lparr>files := (files world0)(''/home/u/310-solution/npy_outputs//3.npy'' \<mapsto> image_2x3x1x1),
            trace := trace world0 @ [Decode [121, 111],
                                FileWrite ''/home/u/310-solution/npy_outputs//3.npy'']\<rparr>)"
    by (simp add: state_of_def)
  then have "w' = world0\<lparr>files := (files world0)(''/home/u/310-solution/npy_outputs//3.npy'' \<mapsto> image_2x3x1x1),
            trace := trace world0 @ [Decode [121, 111],
                                FileWrite ''/home/u/310-solution/npy_outputs//3.npy'']\<rparr>"
    by simp
  then have c: "files w' ''/home/u/310-solution/npy_outputs//3.npy'' = Some image_2x3x1x1"
    by simp
  from a b1 c show ?thesis by (simp add: s u(1))
qed

end
